theory Spec2Isabelle
  imports Complex_Main
begin

section \<open>The Pope agent (src/pope/PopeAgent.mjs): data model\<close>

text \<open>
  The class \<^verbatim>\<open>PopeAgent\<close> is embedded as a record \<open>agent\<close> that is passed through
  every method and returned updated. The object \<^verbatim>\<open>this.state\<close> is the record
  \<open>agent_state\<close>. What the JavaScript runtime holds for the agent (the WebSocket objects
  it created, the timers it registered, the frames it sent, the console) is part of the
  record as explicit stores, so that a handler closing over an old socket or timer is a
  reference (an index) into a store.

  Typing conventions. Positions and rotations are arrays of numbers (\<open>real list\<close>;
  \<^verbatim>\<open>JSON.stringify(a) !== JSON.stringify(b)\<close> on such arrays is \<open>a \<noteq> b\<close>).
  Numbers are reals, not IEEE doubles. \<^verbatim>\<open>Date.now()\<close> and \<^verbatim>\<open>Math.random()\<close> are
  inputs of the step that reads them, one reading for each step. Log lines carry the
  fixed part of their text only. The backend address is one that the \<^verbatim>\<open>WebSocket\<close>
  constructor accepts.
\<close>

type_synonym vec = "real list"

record chat_entry =
  sender :: string
  body_text :: string
  timestamp :: int

record agent_state =
  isConnected :: bool
  isBackendConnected :: bool
  isMoving :: bool
  currentAnimation :: string
  currentPosition :: vec
  currentRotation :: vec
  activeModel :: string
  isSpeaking :: bool
  isThinking :: bool
  browserActive :: bool
  lastInteraction :: int
  chatHistory :: "chat_entry list"

text \<open>\<^verbatim>\<open>new URL(config.popeBackendUrl)\<close>: the parts \<^verbatim>\<open>checkBackendStatus\<close> reads.\<close>

record url =
  protocol :: string
  hostname :: string
  port :: string

record config =
  popeBackendUrl :: "url option" \<comment> \<open>\<open>None\<close>: the \<^verbatim>\<open>URL\<close> constructor throws\<close>
  debug :: bool

record world =
  chat :: bool \<comment> \<open>\<^verbatim>\<open>world.chat\<close> is present\<close>
  player_id :: "string option" \<comment> \<open>\<^verbatim>\<open>world.entities?.player?.id\<close>; \<open>None\<close> is \<^verbatim>\<open>undefined\<close>\<close>

datatype ready_state = CONNECTING | OPEN | CLOSING | CLOSED

datatype promise = Pending | Resolved | Rejected string

datatype awaiter = Nobody | AwaitedByStart | AwaitedByReconnect

text \<open>
  One \<^verbatim>\<open>new WebSocket(...)\<close> of \<^verbatim>\<open>connectToBackend\<close>, with what its handlers close
  over: the promise of that call, who awaits it, and the handle of its 30 s timer.
\<close>

record websocket =
  readyState :: ready_state
  promise :: promise
  awaiter :: awaiter
  timeout :: nat

datatype callback =
    IdleAnimation | IdleRevert | LookAround | ConnectionMonitor
  | Reconnect | MovementComplete | GreetingRevert | HandshakeTimeout nat

record timer =
  cb :: callback
  delay :: real
  repeating :: bool \<comment> \<open>\<^verbatim>\<open>setInterval\<close> rather than \<^verbatim>\<open>setTimeout\<close>\<close>
  active :: bool \<comment> \<open>registered, not cleared, and (one-shot) not yet fired\<close>

datatype outbound =
    STATE_UPDATE vec vec string bool | VOICE_INPUT string | ACTION string vec

datatype console_line = ConsoleLog string | ConsoleError string

record agent =
  config :: config
  world :: world
  state :: agent_state
  socket :: "nat option" \<comment> \<open>\<^verbatim>\<open>this.socket\<close>: \<open>None\<close> is \<^verbatim>\<open>null\<close>\<close>
  connectionAttempts :: nat \<comment> \<open>\<^verbatim>\<open>undefined\<close> is read as 0 everywhere\<close>
  idleAnimationInterval :: "nat option"
  lookAroundInterval :: "nat option"
  connectionMonitor :: "nat option"
  subscribed :: bool \<comment> \<open>\<^verbatim>\<open>world.chat.subscribe(handleIncomingChat)\<close> was called\<close>
  greetings :: "string list" \<comment> \<open>\<^verbatim>\<open>character.responses.greetings\<close>; \<open>[]\<close> when there is none\<close>
  sockets :: "websocket list"
  timers :: "timer list"
  sent :: "(nat \<times> outbound) list" \<comment> \<open>frames handed to \<^verbatim>\<open>socket.send\<close>, with the socket\<close>
  console :: "console_line list"
  animationLog :: "string list" \<comment> \<open>history variable: every assignment to \<^verbatim>\<open>currentAnimation\<close>\<close>

text \<open>What one step reads from outside the agent.\<close>

datatype fetch_outcome = Response bool | FetchError

record env =
  date_now :: int \<comment> \<open>\<^verbatim>\<open>Date.now()\<close>, in milliseconds\<close>
  math_random :: real \<comment> \<open>\<^verbatim>\<open>Math.random()\<close>, in \<open>[0, 1)\<close>\<close>
  fetch :: fetch_outcome \<comment> \<open>the \<^verbatim>\<open>/status\<close> probe: \<^verbatim>\<open>response.ok\<close>, or a throw (also on abort)\<close>
  character_file :: "string list option"
    \<comment> \<open>the greetings of the character file; \<open>None\<close>: it cannot be read or parsed\<close>

text \<open>The constructor, called at time \<open>t\<close>.\<close>

definition new_state :: "int \<Rightarrow> agent_state" where
  "new_state t =
     \<lparr>isConnected = False, isBackendConnected = False, isMoving = False,
      currentAnimation = ''idle'', currentPosition = [0, 0, 0],
      currentRotation = [0, 0, 0, 1], activeModel = ''anthropic'',
      isSpeaking = False, isThinking = False, browserActive = False,
      lastInteraction = t, chatHistory = []\<rparr>"

definition agent_log :: "string \<Rightarrow> agent \<Rightarrow> agent" where
  "agent_log line a =
     (if debug (config a) then a\<lparr>console := console a @ [ConsoleLog line]\<rparr> else a)"

definition console_error :: "string \<Rightarrow> agent \<Rightarrow> agent" where
  "console_error line a = a\<lparr>console := console a @ [ConsoleError line]\<rparr>"

definition new_agent :: "config \<Rightarrow> world \<Rightarrow> int \<Rightarrow> agent" where
  "new_agent c w t =
     agent_log ''Pope agent initialized with config:''
       \<lparr>config = c, world = w, state = new_state t, socket = None,
        connectionAttempts = 0, idleAnimationInterval = None,
        lookAroundInterval = None, connectionMonitor = None, subscribed = False,
        greetings = [], sockets = [], timers = [], sent = [], console = [], animationLog = []\<rparr>"

section \<open>Timers and sockets of the runtime\<close>

definition setTimeout :: "callback \<Rightarrow> real \<Rightarrow> agent \<Rightarrow> agent" where
  "setTimeout f d a =
     a\<lparr>timers := timers a @ [\<lparr>cb = f, delay = d, repeating = False, active = True\<rparr>]\<rparr>"

definition setInterval :: "callback \<Rightarrow> real \<Rightarrow> agent \<Rightarrow> agent" where
  "setInterval f d a =
     a\<lparr>timers := timers a @ [\<lparr>cb = f, delay = d, repeating = True, active = True\<rparr>]\<rparr>"

text \<open>\<^verbatim>\<open>clearTimeout\<close> and \<^verbatim>\<open>clearInterval\<close>; an unknown handle is ignored.\<close>

definition clearTimer :: "nat \<Rightarrow> agent \<Rightarrow> agent" where
  "clearTimer h a =
     (if h < length (timers a)
      then a\<lparr>timers := (timers a)[h := (timers a ! h)\<lparr>active := False\<rparr>]\<rparr>
      else a)"

definition readyState_of :: "agent \<Rightarrow> nat \<Rightarrow> ready_state option" where
  "readyState_of a s =
     (if s < length (sockets a) then Some (readyState (sockets a ! s)) else None)"

definition set_readyState :: "nat \<Rightarrow> ready_state \<Rightarrow> agent \<Rightarrow> agent" where
  "set_readyState s r a =
     (if s < length (sockets a)
      then a\<lparr>sockets := (sockets a)[s := (sockets a ! s)\<lparr>readyState := r\<rparr>]\<rparr>
      else a)"

text \<open>
  \<^verbatim>\<open>socket.close(code, reason)\<close>: an open or connecting socket starts closing; its
  \<^verbatim>\<open>close\<close> event arrives later, as a step of its own.
\<close>

definition socket_close :: "nat \<Rightarrow> agent \<Rightarrow> agent" where
  "socket_close s a =
     (case readyState_of a s of
        Some CONNECTING \<Rightarrow> set_readyState s CLOSING a
      | Some OPEN \<Rightarrow> set_readyState s CLOSING a
      | _ \<Rightarrow> a)"

definition socket_send :: "nat \<Rightarrow> outbound \<Rightarrow> agent \<Rightarrow> agent" where
  "socket_send s m a = a\<lparr>sent := sent a @ [(s, m)]\<rparr>"

section \<open>Animation, movement, interaction\<close>

definition isInteracting :: "int \<Rightarrow> agent \<Rightarrow> bool" where
  "isInteracting t a \<longleftrightarrow> t - lastInteraction (state a) < 60000"

definition setAnimation :: "string \<Rightarrow> agent \<Rightarrow> agent" where
  "setAnimation animation a =
     (if currentAnimation (state a) = animation then a
      else (let a1 = agent_log ''Setting animation:'' a
            in a1\<lparr>state := (state a1)\<lparr>currentAnimation := animation\<rparr>,
                  animationLog := animationLog a1 @ [animation]\<rparr>))"

definition rotateTo :: "vec \<Rightarrow> agent \<Rightarrow> agent" where
  "rotateTo r a =
     (let a1 = agent_log ''Rotating to:'' a
      in a1\<lparr>state := (state a1)\<lparr>currentRotation := r\<rparr>\<rparr>)"

definition moveToPosition :: "vec \<Rightarrow> agent \<Rightarrow> agent" where
  "moveToPosition p a =
     (let a1 = agent_log ''Moving to position:'' a;
          a2 = a1\<lparr>state := (state a1)\<lparr>isMoving := True\<rparr>\<rparr>;
          a3 = setAnimation ''walking'' a2;
          a4 = a3\<lparr>state := (state a3)\<lparr>currentPosition := p\<rparr>\<rparr>
      in setTimeout MovementComplete 1000 a4)"

text \<open>The callback of the timer that \<^verbatim>\<open>moveToPosition\<close> sets.\<close>

definition movementComplete :: "agent \<Rightarrow> agent" where
  "movementComplete a =
     (let a1 = a\<lparr>state := (state a)\<lparr>isMoving := False\<rparr>\<rparr>
      in if \<not> isSpeaking (state a1) \<and> \<not> isThinking (state a1) \<and> \<not> browserActive (state a1)
         then setAnimation ''idle'' a1 else a1)"

section \<open>Outbound traffic\<close>

definition sendStateToBackend :: "int \<Rightarrow> agent \<Rightarrow> agent" where
  "sendStateToBackend t a =
     (case socket a of
        None \<Rightarrow> a
      | Some s \<Rightarrow>
          if readyState_of a s \<noteq> Some OPEN then a
          else socket_send s
                 (STATE_UPDATE (currentPosition (state a)) (currentRotation (state a))
                    (currentAnimation (state a)) (isInteracting t a)) a)"

definition sendVoiceInput :: "string \<Rightarrow> int \<Rightarrow> agent \<Rightarrow> agent" where
  "sendVoiceInput txt t a =
     (case socket a of
        None \<Rightarrow> agent_log ''Cannot send voice input: not connected to backend'' a
      | Some s \<Rightarrow>
          if readyState_of a s \<noteq> Some OPEN
          then agent_log ''Cannot send voice input: not connected to backend'' a
          else (let a1 = agent_log ''Sending voice input:'' a;
                    a2 = socket_send s (VOICE_INPUT txt) a1
                in a2\<lparr>state := (state a2)\<lparr>chatHistory := chatHistory (state a2) @
                        [\<lparr>sender = ''user'', body_text = txt, timestamp = t\<rparr>]\<rparr>\<rparr>))"

definition updateInteraction :: "int \<Rightarrow> agent \<Rightarrow> agent" where
  "updateInteraction t a =
     sendStateToBackend t (a\<lparr>state := (state a)\<lparr>lastInteraction := t\<rparr>\<rparr>)"

definition sendAction :: "string \<Rightarrow> vec \<Rightarrow> agent \<Rightarrow> agent" where
  "sendAction action params a =
     (case socket a of
        None \<Rightarrow> agent_log ''Cannot send action: not connected to backend'' a
      | Some s \<Rightarrow>
          if readyState_of a s \<noteq> Some OPEN
          then agent_log ''Cannot send action: not connected to backend'' a
          else socket_send s (ACTION action params) (agent_log ''Sending action:'' a))"

text \<open>A record of the chat feed; \<open>fromId = None\<close> is \<^verbatim>\<open>undefined\<close>.\<close>

record chat_message =
  from_name :: string
  fromId :: "string option"
  body :: string

definition handleIncomingChat :: "chat_message \<Rightarrow> int \<Rightarrow> agent \<Rightarrow> agent" where
  "handleIncomingChat m t a =
     (let a1 = agent_log ''Received chat message:'' a
      in if fromId m = player_id (world a1) then a1
         else updateInteraction t (sendVoiceInput (body m) t a1))"

section \<open>Greeting a player nearby\<close>

definition getRandomGreeting :: "real \<Rightarrow> agent \<Rightarrow> string" where
  "getRandomGreeting r a =
     (let defaultGreetings =
            [''Peace be with you, my child.'', ''Greetings in this digital realm.'',
             ''Benedicite - blessings upon you.'']
      in if greetings a \<noteq> []
         then greetings a ! nat \<lfloor>r * real (length (greetings a))\<rfloor>
         else defaultGreetings ! nat \<lfloor>r * 3\<rfloor>)"

text \<open>
  \<^verbatim>\<open>Math.atan2(y, x)\<close> of a vector that is not zero is the argument of \<open>x + iy\<close>. A
  coordinate that an array lacks makes the length \<^verbatim>\<open>NaN\<close>, which is not above zero.
\<close>

definition lookAt :: "vec \<Rightarrow> agent \<Rightarrow> agent" where
  "lookAt p a =
     (let a1 = agent_log ''Looking at position:'' a;
          c = currentPosition (state a1)
      in if length p < 3 \<or> length c < 3 then a1
         else (let dx = p ! 0 - c ! 0;
                   dz = p ! 2 - c ! 2;
                   len = sqrt (dx ^ 2 + dz ^ 2)
               in if len > 0
                  then (let angle = Arg (Complex (dz / len) (dx / len));
                            r = [0, sin (angle / 2), 0, cos (angle / 2)]
                        in sendAction ''rotate'' r (rotateTo r a1))
                  else a1))"

text \<open>\<^verbatim>\<open>onPlayerNearby\<close>, for a player at position \<open>p\<close>, and the 3 s timer it sets.\<close>

definition onPlayerNearby :: "vec \<Rightarrow> env \<Rightarrow> agent \<Rightarrow> agent" where
  "onPlayerNearby p e a =
     (let a1 = agent_log ''Player nearby at distance'' a
      in if \<not> isInteracting (date_now e) a1
         then (let a2 = lookAt p a1;
                   a3 = setAnimation ''blessing'' a2;
                   greeting = getRandomGreeting (math_random e) a3;
                   a4 = sendVoiceInput greeting (date_now e) a3;
                   a5 = updateInteraction (date_now e) a4
               in setTimeout GreetingRevert 3000 a5)
         else a1)"

definition greetingRevert :: "agent \<Rightarrow> agent" where
  "greetingRevert a =
     (if \<not> isSpeaking (state a) \<and> \<not> isThinking (state a)
      then setAnimation ''idle'' a else a)"

section \<open>Inbound traffic: the message router and the state reconciler\<close>

text \<open>
  The \<^verbatim>\<open>state\<close> object of an inbound \<^verbatim>\<open>STATE_UPDATE\<close>, with the types of the wire
  protocol; \<open>None\<close> is an absent field.
\<close>

record backend_state =
  position :: "vec option"
  rotation :: "vec option"
  speaking :: "bool option"
  thinking :: "bool option"
  browser_active :: "bool option"
  current_model :: "string option"
  animations :: "string list option"

datatype exn = SyntaxError | TypeError

text \<open>
  \<^verbatim>\<open>updateStateFromBackend\<close> on an object, one definition for each of its seven
  blocks, in the order of the source. On \<^verbatim>\<open>undefined\<close> and \<^verbatim>\<open>null\<close> the first
  line throws, before anything is changed: that case is in \<open>dispatch\<close> below.
\<close>

definition update_position :: "backend_state \<Rightarrow> agent \<Rightarrow> agent" where
  "update_position b a =
     (case position b of
        None \<Rightarrow> a
      | Some p \<Rightarrow>
          if p \<noteq> currentPosition (state a)
          then moveToPosition p (a\<lparr>state := (state a)\<lparr>currentPosition := p\<rparr>\<rparr>)
          else a)"

definition update_rotation :: "backend_state \<Rightarrow> agent \<Rightarrow> agent" where
  "update_rotation b a =
     (case rotation b of
        None \<Rightarrow> a
      | Some r \<Rightarrow>
          if r \<noteq> currentRotation (state a)
          then rotateTo r (a\<lparr>state := (state a)\<lparr>currentRotation := r\<rparr>\<rparr>)
          else a)"

definition update_speaking :: "backend_state \<Rightarrow> agent \<Rightarrow> agent" where
  "update_speaking b a =
     (case speaking b of
        None \<Rightarrow> a
      | Some v \<Rightarrow>
          (let a1 = a\<lparr>state := (state a)\<lparr>isSpeaking := v\<rparr>\<rparr>
           in if v then setAnimation ''talking'' a1
              else if \<not> isMoving (state a1) \<and> \<not> isThinking (state a1)
              then setAnimation ''idle'' a1 else a1))"

definition update_thinking :: "backend_state \<Rightarrow> agent \<Rightarrow> agent" where
  "update_thinking b a =
     (case thinking b of
        None \<Rightarrow> a
      | Some v \<Rightarrow>
          (let a1 = a\<lparr>state := (state a)\<lparr>isThinking := v\<rparr>\<rparr>
           in if v then setAnimation ''thinking'' a1
              else if \<not> isMoving (state a1) \<and> \<not> isSpeaking (state a1)
              then setAnimation ''idle'' a1 else a1))"

definition update_browser :: "backend_state \<Rightarrow> agent \<Rightarrow> agent" where
  "update_browser b a =
     (case browser_active b of
        None \<Rightarrow> a
      | Some v \<Rightarrow>
          (let a1 = a\<lparr>state := (state a)\<lparr>browserActive := v\<rparr>\<rparr>
           in if v then setAnimation ''browsing'' a1
              else if \<not> isMoving (state a1) \<and> \<not> isSpeaking (state a1)
                      \<and> \<not> isThinking (state a1)
              then setAnimation ''idle'' a1 else a1))"

definition update_model :: "backend_state \<Rightarrow> agent \<Rightarrow> agent" where
  "update_model b a =
     (case current_model b of
        None \<Rightarrow> a
      | Some m \<Rightarrow> if m \<noteq> [] then a\<lparr>state := (state a)\<lparr>activeModel := m\<rparr>\<rparr> else a)"

definition update_animations :: "backend_state \<Rightarrow> agent \<Rightarrow> agent" where
  "update_animations b a =
     (case animations b of
        Some (x # xs) \<Rightarrow> setAnimation x a
      | _ \<Rightarrow> a)"

definition updateStateFromBackend :: "backend_state \<Rightarrow> agent \<Rightarrow> agent" where
  "updateStateFromBackend b a =
     update_animations b (update_model b (update_browser b (update_thinking b
       (update_speaking b (update_rotation b (update_position b a))))))"

definition playAudio :: "agent \<Rightarrow> agent" where
  "playAudio a = agent_log ''Audio playback requested'' a"

text \<open>
  \<^verbatim>\<open>updatePhysicsObjects\<close> on a value that has keys, taken as their number. On
  \<^verbatim>\<open>undefined\<close> and \<^verbatim>\<open>null\<close>, \<^verbatim>\<open>Object.keys\<close> throws before the line is logged.
\<close>

definition updatePhysicsObjects :: "nat \<Rightarrow> agent \<Rightarrow> agent" where
  "updatePhysicsObjects n a = agent_log ''Updating physics objects'' a"

text \<open>
  \<^verbatim>\<open>event.data\<close> after \<^verbatim>\<open>JSON.parse\<close>: the parse throws (\<open>Unparseable\<close>), yields
  \<^verbatim>\<open>null\<close>, or yields a value whose fields are read below. \<open>msg_type = None\<close> stands
  for a \<^verbatim>\<open>type\<close> that is absent or not a string (also: the value is not an object).
\<close>

record message =
  msg_type :: "string option"
  msg_state :: "backend_state option" \<comment> \<open>\<open>None\<close>: \<^verbatim>\<open>undefined\<close> or \<^verbatim>\<open>null\<close>\<close>
  msg_objects :: "nat option" \<comment> \<open>\<open>None\<close>: \<^verbatim>\<open>undefined\<close> or \<^verbatim>\<open>null\<close>\<close>

datatype payload = Unparseable | JsonNull | Json message

definition dispatch :: "message \<Rightarrow> agent \<Rightarrow> exn + agent" where
  "dispatch m a =
     (if msg_type m = Some ''STATE_UPDATE''
      then (case msg_state m of
              None \<Rightarrow> Inl TypeError
            | Some b \<Rightarrow> Inr (updateStateFromBackend b a))
      else if msg_type m = Some ''AUDIO'' then Inr (playAudio a)
      else if msg_type m = Some ''BROWSER_CONTENT''
      then Inr (agent_log ''Received browser content'' a)
      else if msg_type m = Some ''PHYSICS_UPDATE''
      then (case msg_objects m of
              None \<Rightarrow> Inl TypeError
            | Some n \<Rightarrow> Inr (updatePhysicsObjects n a))
      else Inr (agent_log ''Unknown message type:'' a))"

text \<open>
  The \<^verbatim>\<open>try\<close> block and its \<^verbatim>\<open>catch\<close>. Every throw inside happens before the
  throwing call changed anything, so the handler runs on the agent as it was then.
\<close>

definition handleBackendMessage :: "payload \<Rightarrow> agent \<Rightarrow> agent" where
  "handleBackendMessage d a =
     (case d of
        Unparseable \<Rightarrow> console_error ''Error handling backend message:'' a
      | JsonNull \<Rightarrow>
          console_error ''Error handling backend message:''
            (agent_log ''Received message from backend:'' a)
      | Json m \<Rightarrow>
          (let a1 = agent_log ''Received message from backend:'' a
           in case dispatch m a1 of
                Inl e \<Rightarrow> console_error ''Error handling backend message:'' a1
              | Inr a2 \<Rightarrow> a2))"

section \<open>Connection manager and backoff\<close>

text \<open>
  \<^verbatim>\<open>checkBackendStatus\<close> never throws: both \<^verbatim>\<open>catch\<close> blocks return
  \<^verbatim>\<open>false\<close>. Its 3 s abort timer is cleared on both paths and shows only in the
  outcome of the fetch.
\<close>

definition checkBackendStatus :: "env \<Rightarrow> agent \<Rightarrow> bool \<times> agent" where
  "checkBackendStatus e a =
     (case popeBackendUrl (config a) of
        None \<Rightarrow> (False, agent_log ''Error checking backend status:'' a)
      | Some u \<Rightarrow>
          if hostname u = ''localhost'' \<or> hostname u = ''127.0.0.1''
          then (let a1 = agent_log ''Checking backend status at'' a
                in case fetch e of
                     Response ok \<Rightarrow> (ok, a1)
                   | FetchError \<Rightarrow> (False, agent_log ''Backend status check failed:'' a1))
          else (True, a))"

text \<open>
  What a call of \<^verbatim>\<open>connectToBackend\<close> returns: a promise already rejected, or the
  pending promise of the handshake on socket \<open>s\<close>.
\<close>

datatype connecting = RejectedNow string | Handshake nat

text \<open>
  The call up to the \<^verbatim>\<open>return\<close>, with the probe's result at hand. The
  \<^verbatim>\<open>catch\<close> around the probe is never entered (the probe does not throw, and the
  rejected promise is returned, not awaited).
\<close>

definition connectToBackend :: "env \<Rightarrow> agent \<Rightarrow> connecting \<times> agent" where
  "connectToBackend e a =
     (let a1 = agent_log ''Connecting to Pope backend at'' a;
          a2 = a1\<lparr>connectionAttempts := connectionAttempts a1 + 1\<rparr>;
          (backendAvailable, a3) = checkBackendStatus e a2
      in if \<not> backendAvailable
         then (RejectedNow ''Backend server unavailable'',
               agent_log ''Backend server appears to be unavailable'' a3)
         else (let s = length (sockets a3);
                   h = length (timers a3);
                   a4 = a3\<lparr>sockets := sockets a3 @
                            [\<lparr>readyState = CONNECTING, promise = Pending,
                              awaiter = Nobody, timeout = h\<rparr>],
                          socket := Some s\<rparr>
               in (Handshake s, setTimeout (HandshakeTimeout s) 30000 a4)))"

definition set_awaiter :: "nat \<Rightarrow> awaiter \<Rightarrow> agent \<Rightarrow> agent" where
  "set_awaiter s w a =
     (if s < length (sockets a)
      then a\<lparr>sockets := (sockets a)[s := (sockets a ! s)\<lparr>awaiter := w\<rparr>]\<rparr>
      else a)"

text \<open>\<^verbatim>\<open>resolve\<close> and \<^verbatim>\<open>reject\<close> of the promise of socket \<open>s\<close>: the first one wins.\<close>

definition settle :: "nat \<Rightarrow> promise \<Rightarrow> agent \<Rightarrow> agent" where
  "settle s r a =
     (if s < length (sockets a) \<and> promise (sockets a ! s) = Pending
      then a\<lparr>sockets := (sockets a)[s := (sockets a ! s)\<lparr>promise := r\<rparr>]\<rparr>
      else a)"

definition MAX_ATTEMPTS :: nat where
  "MAX_ATTEMPTS = 10"

text \<open>
  The delay expression of \<^verbatim>\<open>scheduleReconnect\<close>, in milliseconds; \<open>r\<close> is the draw of
  \<^verbatim>\<open>Math.random()\<close>. \<^verbatim>\<open>Math.pow(2, n - 1)\<close> is one half at \<open>n = 0\<close>.
\<close>

definition backoffTime :: "nat \<Rightarrow> real \<Rightarrow> real" where
  "backoffTime n r = min 60000 (5000 * power_int 2 (int n - 1) * (0.9 + r * 0.2))"

definition scheduleReconnect :: "env \<Rightarrow> agent \<Rightarrow> agent" where
  "scheduleReconnect e a =
     (if connectionAttempts a \<ge> MAX_ATTEMPTS
      then console_error ''Maximum reconnection attempts reached. Giving up.'' a
      else setTimeout Reconnect (backoffTime (connectionAttempts a) (math_random e))
             (agent_log ''Scheduling reconnection attempt'' a))"

text \<open>The callback of the timer that \<^verbatim>\<open>scheduleReconnect\<close> sets, up to its await.\<close>

definition reconnect :: "env \<Rightarrow> agent \<Rightarrow> agent" where
  "reconnect e a =
     (if \<not> isBackendConnected (state a)
      then (let a1 = agent_log ''Attempting reconnection'' a;
                (r, a2) = connectToBackend e a1
            in case r of
                 RejectedNow msg \<Rightarrow> console_error ''Reconnection attempt failed:'' a2
               | Handshake s \<Rightarrow> set_awaiter s AwaitedByReconnect a2)
      else a)"

text \<open>The handlers that \<^verbatim>\<open>connectToBackend\<close> puts on socket \<open>s\<close>.\<close>

definition socket_onopen :: "nat \<Rightarrow> env \<Rightarrow> agent \<Rightarrow> agent" where
  "socket_onopen s e a =
     (let a1 = clearTimer (timeout (sockets a ! s)) a;
          a2 = agent_log ''Connected to Pope backend'' a1;
          a3 = a2\<lparr>state := (state a2)\<lparr>isBackendConnected := True\<rparr>\<rparr>;
          a4 = a3\<lparr>connectionAttempts := 0\<rparr>;
          a5 = sendStateToBackend (date_now e) a4
      in settle s Resolved a5)"

definition socket_onclose :: "nat \<Rightarrow> env \<Rightarrow> agent \<Rightarrow> agent" where
  "socket_onclose s e a =
     (let a1 = agent_log ''Disconnected from Pope backend:'' a;
          a2 = a1\<lparr>state := (state a1)\<lparr>isBackendConnected := False\<rparr>\<rparr>
      in scheduleReconnect e a2)"

definition socket_onerror :: "nat \<Rightarrow> agent \<Rightarrow> agent" where
  "socket_onerror s a =
     (let a1 = console_error ''WebSocket error:'' a
      in a1\<lparr>state := (state a1)\<lparr>isBackendConnected := False\<rparr>\<rparr>)"

text \<open>The 30 s timer of the call that made socket \<open>s\<close>; it closes \<^verbatim>\<open>this.socket\<close>.\<close>

definition handshakeTimeout :: "nat \<Rightarrow> agent \<Rightarrow> agent" where
  "handshakeTimeout s a =
     (if \<not> isBackendConnected (state a)
      then (let a1 = agent_log ''Connection to backend timed out after 30 seconds'' a;
                a2 = (case socket a1 of
                        None \<Rightarrow> a1
                      | Some c \<Rightarrow>
                          if readyState_of a1 c \<noteq> Some CLOSED then socket_close c a1 else a1)
            in settle s (Rejected ''Connection timeout'') a2)
      else a)"

section \<open>Idle behaviours\<close>

definition startIdleBehaviors :: "agent \<Rightarrow> agent" where
  "startIdleBehaviors a =
     (let a1 = agent_log ''Starting idle behaviors'' a;
          a2 = (setInterval IdleAnimation 45000 a1)
                 \<lparr>idleAnimationInterval := Some (length (timers a1))\<rparr>
      in (setInterval LookAround 25000 a2)
           \<lparr>lookAroundInterval := Some (length (timers a2))\<rparr>)"

definition stopIdleBehaviors :: "agent \<Rightarrow> agent" where
  "stopIdleBehaviors a =
     (let a1 = agent_log ''Stopping idle behaviors'' a;
          a2 = (case idleAnimationInterval a1 of
                  None \<Rightarrow> a1
                | Some h \<Rightarrow> (clearTimer h a1)\<lparr>idleAnimationInterval := None\<rparr>)
      in case lookAroundInterval a2 of
           None \<Rightarrow> a2
         | Some h \<Rightarrow> (clearTimer h a2)\<lparr>lookAroundInterval := None\<rparr>)"

definition idle_allowed :: "int \<Rightarrow> agent \<Rightarrow> bool" where
  "idle_allowed t a \<longleftrightarrow>
     \<not> isInteracting t a \<and> \<not> isMoving (state a) \<and> \<not> isSpeaking (state a)
     \<and> \<not> isThinking (state a)"

text \<open>The callback of the 45 s interval, and that of the 5 s timer it sets.\<close>

definition idleAnimation :: "env \<Rightarrow> agent \<Rightarrow> agent" where
  "idleAnimation e a =
     (if idle_allowed (date_now e) a
      then (let randomAnimation =
                  [''idle'', ''reflection'', ''prayer''] ! nat \<lfloor>math_random e * 3\<rfloor>
            in setTimeout IdleRevert 5000 (setAnimation randomAnimation a))
      else a)"

definition idleRevert :: "env \<Rightarrow> agent \<Rightarrow> agent" where
  "idleRevert e a = (if idle_allowed (date_now e) a then setAnimation ''idle'' a else a)"

text \<open>The callback of the 25 s interval.\<close>

definition lookAround :: "env \<Rightarrow> agent \<Rightarrow> agent" where
  "lookAround e a =
     (if \<not> isInteracting (date_now e) a \<and> \<not> isMoving (state a)
      then (let angle = math_random e * pi / 2 - pi / 4
            in rotateTo [0, sin (angle / 2), 0, cos (angle / 2)] a)
      else a)"

text \<open>The callback of the connection monitor that \<^verbatim>\<open>start\<close> sets.\<close>

definition connectionMonitorTick :: "env \<Rightarrow> agent \<Rightarrow> agent" where
  "connectionMonitorTick e a =
     (if \<not> isBackendConnected (state a) \<and> isConnected (state a)
      then scheduleReconnect e
             (agent_log ''Connection monitor: Backend connection lost, attempting reconnect...'' a)
      else a)"

section \<open>Start and stop\<close>

text \<open>
  \<^verbatim>\<open>start\<close> after its await on \<^verbatim>\<open>connectToBackend\<close>, whether that resolved or was
  caught.
\<close>

definition start_resume :: "agent \<Rightarrow> agent" where
  "start_resume a =
     (let a1 = (setInterval ConnectionMonitor 30000 a)
                 \<lparr>connectionMonitor := Some (length (timers a))\<rparr>;
          a2 = (if chat (world a1) then a1\<lparr>subscribed := True\<rparr> else a1);
          a3 = startIdleBehaviors a2;
          a4 = setAnimation ''idle'' a3
      in a4\<lparr>state := (state a4)\<lparr>isConnected := True\<rparr>\<rparr>)"

text \<open>
  \<^verbatim>\<open>loadCharacter\<close>: the file's greetings, or the fallback character, which has
  none.
\<close>

definition loadCharacter :: "env \<Rightarrow> agent \<Rightarrow> agent" where
  "loadCharacter e a =
     (let a1 = agent_log ''Loading character from'' a
      in case character_file e of
           Some g \<Rightarrow> (agent_log ''Character loaded successfully'' a1)\<lparr>greetings := g\<rparr>
         | None \<Rightarrow>
             (console_error ''Error loading character definition:'' a1)\<lparr>greetings := []\<rparr>)"

text \<open>
  \<^verbatim>\<open>start\<close> up to that await, as one step: the awaits on the character file and on
  the probe have their results at hand. A promise rejected at once is caught at once.
\<close>

definition start :: "env \<Rightarrow> agent \<Rightarrow> agent" where
  "start e a =
     (let a0 = agent_log ''Starting Pope agent'' a;
          a1 = loadCharacter e a0;
          a2 = a1\<lparr>connectionAttempts := 0\<rparr>;
          (r, a3) = connectToBackend e a2
      in case r of
           RejectedNow msg \<Rightarrow> start_resume (console_error ''Failed to connect to backend:'' a3)
         | Handshake s \<Rightarrow> set_awaiter s AwaitedByStart a3)"

definition stop :: "agent \<Rightarrow> agent" where
  "stop a =
     (let a1 = agent_log ''Stopping Pope agent'' a;
          a2 = stopIdleBehaviors a1;
          a3 = (case connectionMonitor a2 of
                  None \<Rightarrow> a2
                | Some h \<Rightarrow> (clearTimer h a2)\<lparr>connectionMonitor := None\<rparr>);
          a4 = (case socket a3 of
                  None \<Rightarrow> a3
                | Some s \<Rightarrow> (socket_close s a3)\<lparr>socket := None\<rparr>)
      in a4\<lparr>state := (state a4)\<lparr>isConnected := False\<rparr>\<rparr>)"

section \<open>The event loop\<close>

text \<open>
  One event is one job of the JavaScript event loop, run to completion: a call from the
  host (\<open>Start\<close>, \<open>Stop\<close>, \<open>PlayerNearby\<close>, and \<open>Chat\<close> once subscribed), an event
  of WebSocket \<open>s\<close>, a timer that fires, or the continuation of an await on the promise
  of socket \<open>s\<close> (\<open>Resume\<close>). A continuation that is ready runs before any other
  event. Timers fire in any order. A socket reports \<open>open\<close> only while connecting,
  messages only while open, and nothing once closed.
\<close>

datatype event =
    Start env | Stop | Chat chat_message env | PlayerNearby vec env
  | SocketOpen nat env | SocketError nat | SocketClose nat env | SocketMessage nat payload
  | Fire nat env | Resume nat

definition run_callback :: "callback \<Rightarrow> env \<Rightarrow> agent \<Rightarrow> agent" where
  "run_callback f e a =
     (case f of
        IdleAnimation \<Rightarrow> idleAnimation e a
      | IdleRevert \<Rightarrow> idleRevert e a
      | LookAround \<Rightarrow> lookAround e a
      | ConnectionMonitor \<Rightarrow> connectionMonitorTick e a
      | Reconnect \<Rightarrow> reconnect e a
      | MovementComplete \<Rightarrow> movementComplete a
      | GreetingRevert \<Rightarrow> greetingRevert a
      | HandshakeTimeout s \<Rightarrow> handshakeTimeout s a)"

definition fire :: "nat \<Rightarrow> env \<Rightarrow> agent \<Rightarrow> agent" where
  "fire h e a =
     (let t = timers a ! h;
          a1 = (if repeating t then a else clearTimer h a)
      in run_callback (cb t) e a1)"

definition awaited_settled :: "websocket \<Rightarrow> bool" where
  "awaited_settled w \<longleftrightarrow> awaiter w \<noteq> Nobody \<and> promise w \<noteq> Pending"

definition ready :: "agent \<Rightarrow> nat \<Rightarrow> bool" where
  "ready a s \<longleftrightarrow> s < length (sockets a) \<and> awaited_settled (sockets a ! s)"

text \<open>The code after the await: of \<^verbatim>\<open>start\<close>, or of the reconnect callback.\<close>

definition resume :: "nat \<Rightarrow> agent \<Rightarrow> agent" where
  "resume s a =
     (let w = awaiter (sockets a ! s);
          r = promise (sockets a ! s);
          a1 = set_awaiter s Nobody a
      in case w of
           AwaitedByStart \<Rightarrow>
             (case r of
                Rejected msg \<Rightarrow> start_resume (console_error ''Failed to connect to backend:'' a1)
              | _ \<Rightarrow> start_resume a1)
         | AwaitedByReconnect \<Rightarrow>
             (case r of
                Rejected msg \<Rightarrow> console_error ''Reconnection attempt failed:'' a1
              | _ \<Rightarrow> a1)
         | Nobody \<Rightarrow> a1)"

definition step :: "event \<Rightarrow> agent \<Rightarrow> agent option" where
  "step ev a =
     (if list_ex awaited_settled (sockets a)
      then (case ev of
              Resume s \<Rightarrow> if ready a s then Some (resume s a) else None
            | _ \<Rightarrow> None)
      else (case ev of
              Start e \<Rightarrow> Some (start e a)
            | Stop \<Rightarrow> Some (stop a)
            | Chat m e \<Rightarrow>
                if subscribed a then Some (handleIncomingChat m (date_now e) a) else None
            | PlayerNearby p e \<Rightarrow> Some (onPlayerNearby p e a)
            | SocketOpen s e \<Rightarrow>
                if readyState_of a s = Some CONNECTING
                then Some (socket_onopen s e (set_readyState s OPEN a)) else None
            | SocketError s \<Rightarrow>
                if readyState_of a s \<noteq> None \<and> readyState_of a s \<noteq> Some CLOSED
                then Some (socket_onerror s (set_readyState s CLOSING a)) else None
            | SocketClose s e \<Rightarrow>
                if readyState_of a s \<noteq> None \<and> readyState_of a s \<noteq> Some CLOSED
                then Some (socket_onclose s e (set_readyState s CLOSED a)) else None
            | SocketMessage s d \<Rightarrow>
                if readyState_of a s = Some OPEN
                then Some (handleBackendMessage d a) else None
            | Fire h e \<Rightarrow>
                if h < length (timers a) \<and> active (timers a ! h)
                then Some (fire h e a) else None
            | Resume s \<Rightarrow> None))"

fun run :: "event list \<Rightarrow> agent \<Rightarrow> agent option" where
  "run [] a = Some a"
| "run (ev # evs) a = (case step ev a of None \<Rightarrow> None | Some a' \<Rightarrow> run evs a')"

section \<open>The state reconciler in closed form\<close>

text \<open>
  What \<^verbatim>\<open>updateStateFromBackend\<close> leaves in each field of the agent's state, written as
  functions of the update and of the fields before it. \<open>moved\<close>: the update carries a
  position that differs from the current one. \<open>after_speaking\<close> and its siblings: the
  animation that one block leaves, from the flags it reads and the animation it finds.
\<close>

definition moved :: "backend_state \<Rightarrow> agent_state \<Rightarrow> bool" where
  "moved b s \<longleftrightarrow> (case position b of None \<Rightarrow> False | Some p \<Rightarrow> p \<noteq> currentPosition s)"

definition value_after :: "'a option \<Rightarrow> 'a \<Rightarrow> 'a" where
  "value_after u v = (case u of None \<Rightarrow> v | Some w \<Rightarrow> w)"

definition after_speaking :: "backend_state \<Rightarrow> bool \<Rightarrow> bool \<Rightarrow> string \<Rightarrow> string" where
  "after_speaking b m th x =
     (case speaking b of
        None \<Rightarrow> x
      | Some v \<Rightarrow> if v then ''talking'' else if \<not> m \<and> \<not> th then ''idle'' else x)"

definition after_thinking :: "backend_state \<Rightarrow> bool \<Rightarrow> bool \<Rightarrow> string \<Rightarrow> string" where
  "after_thinking b m sp x =
     (case thinking b of
        None \<Rightarrow> x
      | Some v \<Rightarrow> if v then ''thinking'' else if \<not> m \<and> \<not> sp then ''idle'' else x)"

definition after_browser :: "backend_state \<Rightarrow> bool \<Rightarrow> bool \<Rightarrow> bool \<Rightarrow> string \<Rightarrow> string" where
  "after_browser b m sp th x =
     (case browser_active b of
        None \<Rightarrow> x
      | Some v \<Rightarrow> if v then ''browsing'' else if \<not> m \<and> \<not> sp \<and> \<not> th then ''idle'' else x)"

definition after_animations :: "backend_state \<Rightarrow> string \<Rightarrow> string" where
  "after_animations b x = (case animations b of Some (y # ys) \<Rightarrow> y | _ \<Rightarrow> x)"

definition model_after :: "backend_state \<Rightarrow> string \<Rightarrow> string" where
  "model_after b x = (case current_model b of None \<Rightarrow> x | Some m \<Rightarrow> if m \<noteq> [] then m else x)"

definition animation_after :: "backend_state \<Rightarrow> bool \<Rightarrow> bool \<Rightarrow> bool \<Rightarrow> string \<Rightarrow> string" where
  "animation_after b m sp th x =
     after_animations b
       (after_browser b m (value_after (speaking b) sp) (value_after (thinking b) th)
         (after_thinking b m (value_after (speaking b) sp)
           (after_speaking b m th x)))"

text \<open>
  How many of the fields that set an animation the update carries (an empty
  \<^verbatim>\<open>animations\<close> array sets none).
\<close>

definition animation_fields :: "backend_state \<Rightarrow> nat" where
  "animation_fields b =
     (if speaking b = None then 0 else 1) + (if thinking b = None then 0 else 1)
     + (if browser_active b = None then 0 else 1)
     + (case animations b of Some (y # ys) \<Rightarrow> 1 | _ \<Rightarrow> 0)"

text \<open>
  \<open>assigns a a' xs\<close>: between \<open>a\<close> and \<open>a'\<close> the animation was changed \<open>length xs\<close> times,
  to the entries of \<open>xs\<close> in turn.
\<close>

definition assigns :: "agent \<Rightarrow> agent \<Rightarrow> string list \<Rightarrow> bool" where
  "assigns a a' xs \<longleftrightarrow>
     animationLog a' = animationLog a @ xs
     \<and> currentAnimation (state a') = last (currentAnimation (state a) # xs)"

section \<open>Example inputs\<close>

text \<open>A local backend, a world with a chat feed, and the inputs of one step (the probe
  answers, and the character file has no greetings).\<close>

definition example_config :: config where
  "example_config =
     \<lparr>popeBackendUrl = Some \<lparr>protocol = ''ws:'', hostname = ''localhost'', port = ''8765''\<rparr>,
      debug = False\<rparr>"

definition example_world :: world where
  "example_world = \<lparr>chat = True, player_id = Some ''pope''\<rparr>"

definition example_agent :: agent where
  "example_agent = new_agent example_config example_world 0"

definition at_time :: "int \<Rightarrow> env" where
  "at_time t =
     \<lparr>date_now = t, math_random = 1 / 2, fetch = Response True, character_file = Some []\<rparr>"

definition debug_agent :: agent where
  "debug_agent = new_agent (example_config\<lparr>debug := True\<rparr>) example_world 0"

definition no_update :: backend_state where
  "no_update =
     \<lparr>position = None, rotation = None, speaking = None, thinking = None,
      browser_active = None, current_model = None, animations = None\<rparr>"

definition update_message :: "backend_state \<Rightarrow> payload" where
  "update_message b =
     Json \<lparr>msg_type = Some ''STATE_UPDATE'', msg_state = Some b, msg_objects = None\<rparr>"

text \<open>
  \<^verbatim>\<open>start()\<close> with the probe and the handshake succeeding: the call, the socket's
  \<^verbatim>\<open>open\<close> event, and the rest of \<^verbatim>\<open>start\<close>. Afterwards the timers are the
  handshake timer (0, cleared), the connection monitor (1), the idle-animation interval
  (2) and the look-around interval (3).
\<close>

definition connect_and_start :: "event list" where
  "connect_and_start = [Start (at_time 0), SocketOpen 0 (at_time 100), Resume 0]"

section \<open>Predicates of the statements\<close>

text \<open>The test of \<^verbatim>\<open>sendVoiceInput\<close> and \<^verbatim>\<open>sendStateToBackend\<close>, negated.\<close>

definition backend_open :: "agent \<Rightarrow> bool" where
  "backend_open a \<longleftrightarrow>
     (case socket a of None \<Rightarrow> False | Some s \<Rightarrow> readyState_of a s = Some OPEN)"


text \<open>
  The socket that \<^verbatim>\<open>this.socket\<close> refers to is the newest one, and while it is still
  connecting the promise of its \<^verbatim>\<open>connectToBackend\<close> call is pending.
\<close>

definition current_attempt_ok :: "agent \<Rightarrow> bool" where
  "current_attempt_ok a \<longleftrightarrow>
     (\<forall>s. socket a = Some s \<longrightarrow>
        Suc s = length (sockets a)
        \<and> (readyState (sockets a ! s) = CONNECTING \<longrightarrow> promise (sockets a ! s) = Pending))"

text \<open>The agent after \<open>connect_and_start\<close>.\<close>

definition started_agent :: agent where
  "started_agent =
     resume 0 (socket_onopen 0 (at_time 100)
       (set_readyState 0 OPEN (start (at_time 0) example_agent)))"

section \<open>Evaluation\<close>

lemmas model_defs =
  new_agent_def new_state_def agent_log_def console_error_def setTimeout_def setInterval_def
  clearTimer_def readyState_of_def set_readyState_def socket_close_def socket_send_def
  isInteracting_def setAnimation_def rotateTo_def moveToPosition_def movementComplete_def
  sendStateToBackend_def sendVoiceInput_def updateInteraction_def handleIncomingChat_def
  sendAction_def getRandomGreeting_def lookAt_def onPlayerNearby_def greetingRevert_def
  loadCharacter_def update_position_def update_rotation_def update_speaking_def update_thinking_def
  update_browser_def update_model_def update_animations_def
  updateStateFromBackend_def playAudio_def updatePhysicsObjects_def dispatch_def
  handleBackendMessage_def checkBackendStatus_def connectToBackend_def set_awaiter_def
  settle_def MAX_ATTEMPTS_def backoffTime_def scheduleReconnect_def reconnect_def
  socket_onopen_def socket_onclose_def socket_onerror_def handshakeTimeout_def
  startIdleBehaviors_def stopIdleBehaviors_def idle_allowed_def idleAnimation_def
  idleRevert_def lookAround_def connectionMonitorTick_def start_resume_def start_def
  stop_def run_callback_def fire_def awaited_settled_def ready_def resume_def step_def
  example_config_def example_world_def example_agent_def debug_agent_def at_time_def
  started_agent_def no_update_def update_message_def connect_and_start_def power_int_def
  Let_def

section \<open>Closed form of the state reconciler: proofs\<close>

lemma setAnimation_state: "state (setAnimation x a) = (state a)\<lparr>currentAnimation := x\<rparr>"
  by (simp add: setAnimation_def agent_log_def Let_def)

lemma animation_after_again:
  "animation_after b m (value_after (speaking b) sp) (value_after (thinking b) th)
     (animation_after b m sp th x) = animation_after b m sp th x"
  by (cases "speaking b"; cases "thinking b"; cases "browser_active b"; cases "animations b")
     (auto simp: animation_after_def after_animations_def after_browser_def after_thinking_def
        after_speaking_def value_after_def split: list.splits)

lemma update_position_state:
  "state (update_position b a) =
     (state a)\<lparr>currentPosition := value_after (position b) (currentPosition (state a)),
              isMoving := (isMoving (state a) \<or> moved b (state a)),
              currentAnimation :=
                (if moved b (state a) then ''walking'' else currentAnimation (state a))\<rparr>"
  by (simp add: update_position_def moved_def value_after_def moveToPosition_def setTimeout_def
        setAnimation_state Let_def agent_log_def split: option.splits)

lemma update_rotation_state:
  "state (update_rotation b a) =
     (state a)\<lparr>currentRotation := value_after (rotation b) (currentRotation (state a))\<rparr>"
  by (simp add: update_rotation_def value_after_def rotateTo_def Let_def agent_log_def
        split: option.splits)

lemma update_speaking_state:
  "state (update_speaking b a) =
     (state a)\<lparr>isSpeaking := value_after (speaking b) (isSpeaking (state a)),
              currentAnimation :=
                after_speaking b (isMoving (state a)) (isThinking (state a))
                  (currentAnimation (state a))\<rparr>"
  by (simp add: update_speaking_def value_after_def after_speaking_def setAnimation_state Let_def
        split: option.splits)

lemma update_thinking_state:
  "state (update_thinking b a) =
     (state a)\<lparr>isThinking := value_after (thinking b) (isThinking (state a)),
              currentAnimation :=
                after_thinking b (isMoving (state a)) (isSpeaking (state a))
                  (currentAnimation (state a))\<rparr>"
  by (simp add: update_thinking_def value_after_def after_thinking_def setAnimation_state Let_def
        split: option.splits)

lemma update_browser_state:
  "state (update_browser b a) =
     (state a)\<lparr>browserActive := value_after (browser_active b) (browserActive (state a)),
              currentAnimation :=
                after_browser b (isMoving (state a)) (isSpeaking (state a))
                  (isThinking (state a)) (currentAnimation (state a))\<rparr>"
  by (simp add: update_browser_def value_after_def after_browser_def setAnimation_state Let_def
        split: option.splits)

lemma update_model_state:
  "state (update_model b a) = (state a)\<lparr>activeModel := model_after b (activeModel (state a))\<rparr>"
  by (simp add: update_model_def model_after_def split: option.splits)

lemma update_animations_state:
  "state (update_animations b a) =
     (state a)\<lparr>currentAnimation := after_animations b (currentAnimation (state a))\<rparr>"
  by (simp add: update_animations_def after_animations_def setAnimation_state
        split: option.splits list.splits)

lemma updateStateFromBackend_state:
  "state (updateStateFromBackend b a) =
     (state a)\<lparr>currentPosition := value_after (position b) (currentPosition (state a)),
              isMoving := (isMoving (state a) \<or> moved b (state a)),
              currentRotation := value_after (rotation b) (currentRotation (state a)),
              isSpeaking := value_after (speaking b) (isSpeaking (state a)),
              isThinking := value_after (thinking b) (isThinking (state a)),
              browserActive := value_after (browser_active b) (browserActive (state a)),
              activeModel := model_after b (activeModel (state a)),
              currentAnimation :=
                animation_after b (isMoving (state a) \<or> moved b (state a))
                  (isSpeaking (state a)) (isThinking (state a))
                  (if moved b (state a) then ''walking'' else currentAnimation (state a))\<rparr>"
  by (simp add: updateStateFromBackend_def animation_after_def update_position_state
        update_rotation_state update_speaking_state update_thinking_state update_browser_state
        update_model_state update_animations_state)

lemma value_after_again [simp]: "value_after u (value_after u v) = value_after u v"
  by (simp add: value_after_def split: option.splits)

lemma model_after_again [simp]: "model_after b (model_after b x) = model_after b x"
  by (simp add: model_after_def split: option.splits)

lemma not_moved_again [simp]:
  "currentPosition s' = value_after (position b) p \<Longrightarrow> \<not> moved b s'"
  by (simp add: moved_def value_after_def split: option.splits)

lemma setAnimation_others:
  "timers (setAnimation x a) = timers a" "sent (setAnimation x a) = sent a"
  "sockets (setAnimation x a) = sockets a" "socket (setAnimation x a) = socket a"
  by (simp_all add: setAnimation_def agent_log_def Let_def)

lemma update_position_others:
  "timers (update_position b a) =
     (if moved b (state a)
      then timers a @ [\<lparr>cb = MovementComplete, delay = 1000, repeating = False, active = True\<rparr>]
      else timers a)"
  "sent (update_position b a) = sent a"
  "sockets (update_position b a) = sockets a" "socket (update_position b a) = socket a"
  by (simp_all add: update_position_def moved_def moveToPosition_def setTimeout_def
        setAnimation_others Let_def agent_log_def split: option.splits)

lemma update_rotation_others:
  "timers (update_rotation b a) = timers a" "sent (update_rotation b a) = sent a"
  "sockets (update_rotation b a) = sockets a" "socket (update_rotation b a) = socket a"
  by (simp_all add: update_rotation_def rotateTo_def Let_def agent_log_def split: option.splits)

lemma update_speaking_others:
  "timers (update_speaking b a) = timers a" "sent (update_speaking b a) = sent a"
  "sockets (update_speaking b a) = sockets a" "socket (update_speaking b a) = socket a"
  by (simp_all add: update_speaking_def setAnimation_others Let_def split: option.splits)

lemma update_thinking_others:
  "timers (update_thinking b a) = timers a" "sent (update_thinking b a) = sent a"
  "sockets (update_thinking b a) = sockets a" "socket (update_thinking b a) = socket a"
  by (simp_all add: update_thinking_def setAnimation_others Let_def split: option.splits)

lemma update_browser_others:
  "timers (update_browser b a) = timers a" "sent (update_browser b a) = sent a"
  "sockets (update_browser b a) = sockets a" "socket (update_browser b a) = socket a"
  by (simp_all add: update_browser_def setAnimation_others Let_def split: option.splits)

lemma update_model_others:
  "timers (update_model b a) = timers a" "sent (update_model b a) = sent a"
  "sockets (update_model b a) = sockets a" "socket (update_model b a) = socket a"
  by (simp_all add: update_model_def split: option.splits)

lemma update_animations_others:
  "timers (update_animations b a) = timers a" "sent (update_animations b a) = sent a"
  "sockets (update_animations b a) = sockets a" "socket (update_animations b a) = socket a"
  by (simp_all add: update_animations_def setAnimation_others split: option.splits list.splits)

lemma updateStateFromBackend_others:
  "timers (updateStateFromBackend b a) =
     (if moved b (state a)
      then timers a @ [\<lparr>cb = MovementComplete, delay = 1000, repeating = False, active = True\<rparr>]
      else timers a)"
  "sent (updateStateFromBackend b a) = sent a"
  "sockets (updateStateFromBackend b a) = sockets a"
  "socket (updateStateFromBackend b a) = socket a"
  by (simp_all add: updateStateFromBackend_def update_position_others update_rotation_others
        update_speaking_others update_thinking_others update_browser_others update_model_others
        update_animations_others)

lemma reconciled_not_moved: "\<not> moved b (state (updateStateFromBackend b a))"
  by (rule not_moved_again [where p = "currentPosition (state a)"])
     (simp add: updateStateFromBackend_state)

lemma updateStateFromBackend_state_again:
  "state (updateStateFromBackend b (updateStateFromBackend b a)) =
     state (updateStateFromBackend b a)"
proof -
  define s1 where "s1 = state (updateStateFromBackend b a)"
  have n: "\<not> moved b s1"
    unfolding s1_def by (rule reconciled_not_moved)
  have "state (updateStateFromBackend b (updateStateFromBackend b a)) =
     s1\<lparr>currentPosition := value_after (position b) (currentPosition s1),
        isMoving := (isMoving s1 \<or> moved b s1),
        currentRotation := value_after (rotation b) (currentRotation s1),
        isSpeaking := value_after (speaking b) (isSpeaking s1),
        isThinking := value_after (thinking b) (isThinking s1),
        browserActive := value_after (browser_active b) (browserActive s1),
        activeModel := model_after b (activeModel s1),
        currentAnimation :=
          animation_after b (isMoving s1 \<or> moved b s1) (isSpeaking s1) (isThinking s1)
            (if moved b s1 then ''walking'' else currentAnimation s1)\<rparr>"
    unfolding s1_def by (rule updateStateFromBackend_state)
  also have "\<dots> = s1"
    using n by (simp add: s1_def updateStateFromBackend_state animation_after_again)
  finally show ?thesis by (simp add: s1_def)
qed

text \<open>A block that has nothing to change leaves the whole agent as it is.\<close>

lemma setAnimation_fix: "y = currentAnimation (state a) \<Longrightarrow> setAnimation y a = a"
  by (simp add: setAnimation_def)

lemma update_position_fix: "\<not> moved b (state a) \<Longrightarrow> update_position b a = a"
  by (simp add: update_position_def moved_def split: option.splits)

lemma update_rotation_fix:
  assumes "value_after (rotation b) (currentRotation (state a)) = currentRotation (state a)"
  shows "update_rotation b a = a"
proof (cases "rotation b")
  case None
  then show ?thesis by (simp add: update_rotation_def)
next
  case (Some r)
  with assms have "r = currentRotation (state a)" by (simp add: value_after_def)
  then show ?thesis by (simp add: update_rotation_def Some)
qed

lemma update_speaking_fix:
  assumes f: "value_after (speaking b) (isSpeaking (state a)) = isSpeaking (state a)"
    and x: "after_speaking b (isMoving (state a)) (isThinking (state a))
              (currentAnimation (state a)) = currentAnimation (state a)"
  shows "update_speaking b a = a"
proof (cases "speaking b")
  case None
  then show ?thesis by (simp add: update_speaking_def)
next
  case (Some v)
  with f have v: "v = isSpeaking (state a)" by (simp add: value_after_def)
  have a: "a\<lparr>state := (state a)\<lparr>isSpeaking := v\<rparr>\<rparr> = a" unfolding v by simp
  show ?thesis
  proof (cases v)
    case True
    with x Some have "''talking'' = currentAnimation (state a)"
      by (simp add: after_speaking_def)
    then show ?thesis
      using True a by (simp add: update_speaking_def Some Let_def setAnimation_fix)
  next
    case False
    show ?thesis
    proof (cases "\<not> isMoving (state a) \<and> \<not> isThinking (state a)")
      case c: True
      with x Some False have "''idle'' = currentAnimation (state a)"
        by (simp add: after_speaking_def)
      then show ?thesis
        using False c a by (simp add: update_speaking_def Some Let_def setAnimation_fix)
    next
      case c: False
      then show ?thesis
        using False a by (auto simp add: update_speaking_def Some Let_def)
    qed
  qed
qed

lemma update_thinking_fix:
  assumes f: "value_after (thinking b) (isThinking (state a)) = isThinking (state a)"
    and x: "after_thinking b (isMoving (state a)) (isSpeaking (state a))
              (currentAnimation (state a)) = currentAnimation (state a)"
  shows "update_thinking b a = a"
proof (cases "thinking b")
  case None
  then show ?thesis by (simp add: update_thinking_def)
next
  case (Some v)
  with f have v: "v = isThinking (state a)" by (simp add: value_after_def)
  have a: "a\<lparr>state := (state a)\<lparr>isThinking := v\<rparr>\<rparr> = a" unfolding v by simp
  show ?thesis
  proof (cases v)
    case True
    with x Some have "''thinking'' = currentAnimation (state a)"
      by (simp add: after_thinking_def)
    then show ?thesis
      using True a by (simp add: update_thinking_def Some Let_def setAnimation_fix)
  next
    case False
    show ?thesis
    proof (cases "\<not> isMoving (state a) \<and> \<not> isSpeaking (state a)")
      case c: True
      with x Some False have "''idle'' = currentAnimation (state a)"
        by (simp add: after_thinking_def)
      then show ?thesis
        using False c a by (simp add: update_thinking_def Some Let_def setAnimation_fix)
    next
      case c: False
      then show ?thesis
        using False a by (auto simp add: update_thinking_def Some Let_def)
    qed
  qed
qed

lemma update_browser_fix:
  assumes f: "value_after (browser_active b) (browserActive (state a)) = browserActive (state a)"
    and x: "after_browser b (isMoving (state a)) (isSpeaking (state a)) (isThinking (state a))
              (currentAnimation (state a)) = currentAnimation (state a)"
  shows "update_browser b a = a"
proof (cases "browser_active b")
  case None
  then show ?thesis by (simp add: update_browser_def)
next
  case (Some v)
  with f have v: "v = browserActive (state a)" by (simp add: value_after_def)
  have a: "a\<lparr>state := (state a)\<lparr>browserActive := v\<rparr>\<rparr> = a" unfolding v by simp
  show ?thesis
  proof (cases v)
    case True
    with x Some have "''browsing'' = currentAnimation (state a)"
      by (simp add: after_browser_def)
    then show ?thesis
      using True a by (simp add: update_browser_def Some Let_def setAnimation_fix)
  next
    case False
    show ?thesis
    proof (cases "\<not> isMoving (state a) \<and> \<not> isSpeaking (state a) \<and> \<not> isThinking (state a)")
      case c: True
      with x Some False have "''idle'' = currentAnimation (state a)"
        by (simp add: after_browser_def)
      then show ?thesis
        using False c a by (simp add: update_browser_def Some Let_def setAnimation_fix)
    next
      case c: False
      then show ?thesis
        using False a by (auto simp add: update_browser_def Some Let_def)
    qed
  qed
qed

lemma update_model_fix:
  assumes "model_after b (activeModel (state a)) = activeModel (state a)"
  shows "update_model b a = a"
proof (cases "current_model b")
  case None
  then show ?thesis by (simp add: update_model_def)
next
  case (Some m)
  show ?thesis
  proof (cases "m = []")
    case True
    then show ?thesis by (simp add: update_model_def Some)
  next
    case False
    with assms Some have m: "m = activeModel (state a)" by (simp add: model_after_def)
    have "a\<lparr>state := (state a)\<lparr>activeModel := m\<rparr>\<rparr> = a" unfolding m by simp
    then show ?thesis using False by (simp add: update_model_def Some)
  qed
qed

lemma update_animations_fix:
  assumes "after_animations b (currentAnimation (state a)) = currentAnimation (state a)"
  shows "update_animations b a = a"
proof (cases "animations b")
  case None
  then show ?thesis by (simp add: update_animations_def)
next
  case (Some ys)
  show ?thesis
  proof (cases ys)
    case Nil
    then show ?thesis by (simp add: update_animations_def Some)
  next
    case (Cons y zs)
    with assms Some have "y = currentAnimation (state a)" by (simp add: after_animations_def)
    then show ?thesis by (simp add: update_animations_def Some Cons setAnimation_fix)
  qed
qed

lemma single_field_again:
  assumes "animation_fields b \<le> 1"
  shows "after_speaking b m (value_after (thinking b) th) (animation_after b m sp th x)
           = animation_after b m sp th x"
    and "after_thinking b m (value_after (speaking b) sp) (animation_after b m sp th x)
           = animation_after b m sp th x"
    and "after_browser b m (value_after (speaking b) sp) (value_after (thinking b) th)
           (animation_after b m sp th x) = animation_after b m sp th x"
    and "after_animations b (animation_after b m sp th x) = animation_after b m sp th x"
  using assms
  by (cases "speaking b"; cases "thinking b"; cases "browser_active b"; cases "animations b";
      auto simp: animation_fields_def animation_after_def after_animations_def after_browser_def
        after_thinking_def after_speaking_def value_after_def split: list.splits)+

lemma updateStateFromBackend_again:
  assumes "animation_fields b \<le> 1"
  shows "updateStateFromBackend b (updateStateFromBackend b a) = updateStateFromBackend b a"
proof -
  define a1 where "a1 = updateStateFromBackend b a"
  note st = updateStateFromBackend_state [of b a, folded a1_def]
  have 1: "update_position b a1 = a1"
    unfolding a1_def by (rule update_position_fix) (rule reconciled_not_moved)
  have 2: "update_rotation b a1 = a1"
    by (rule update_rotation_fix) (simp add: st)
  have 3: "update_speaking b a1 = a1"
    by (rule update_speaking_fix) (simp_all add: st single_field_again [OF assms])
  have 4: "update_thinking b a1 = a1"
    by (rule update_thinking_fix) (simp_all add: st single_field_again [OF assms])
  have 5: "update_browser b a1 = a1"
    by (rule update_browser_fix) (simp_all add: st single_field_again [OF assms])
  have 6: "update_model b a1 = a1"
    by (rule update_model_fix) (simp add: st)
  have 7: "update_animations b a1 = a1"
    by (rule update_animations_fix) (simp add: st single_field_again [OF assms])
  have "updateStateFromBackend b a1 = a1"
    by (simp add: updateStateFromBackend_def [of b a1] 1 2 3 4 5 6 7)
  then show ?thesis by (simp add: a1_def)
qed

text \<open>
  What a run of the reconciler assigns to \<open>currentAnimation\<close>: every assignment that
  changes the animation goes through \<^verbatim>\<open>setAnimation\<close>, which appends it to the log, so
  the animation after the run is the last entry that the run appended, or the animation
  before it when it appended none.
\<close>

lemma assigns_trans:
  "assigns a a' xs \<Longrightarrow> assigns a' a'' ys \<Longrightarrow> assigns a a'' (xs @ ys)"
  by (cases ys) (simp_all add: assigns_def)

lemma setAnimation_assigns:
  "assigns a (setAnimation x a) (if currentAnimation (state a) = x then [] else [x])"
  by (simp add: assigns_def setAnimation_def agent_log_def Let_def)

lemma update_position_assigns: "\<not> moved b (state a) \<Longrightarrow> assigns a (update_position b a) []"
  by (simp add: update_position_fix assigns_def)

lemma update_rotation_assigns: "assigns a (update_rotation b a) []"
  by (simp add: assigns_def update_rotation_def rotateTo_def agent_log_def Let_def
        split: option.splits)

lemma update_model_assigns: "assigns a (update_model b a) []"
  by (simp add: assigns_def update_model_def split: option.splits)

lemma setAnimation_step:
  assumes "assigns a a1 []"
  shows "\<exists>xs. assigns a (setAnimation x a1) xs \<and> length xs \<le> 1"
proof -
  have "assigns a (setAnimation x a1) ([] @ (if currentAnimation (state a1) = x then [] else [x]))"
    using assms setAnimation_assigns by (rule assigns_trans)
  then show ?thesis
    by (intro exI [where x = "if currentAnimation (state a1) = x then [] else [x]"]) simp
qed

lemma assigns_nothing: "assigns a a1 [] \<Longrightarrow> \<exists>xs. assigns a a1 xs \<and> length xs \<le> 1"
  by (intro exI [where x = "[]"]) simp

lemma update_speaking_assigns:
  "\<exists>xs. assigns a (update_speaking b a) xs
        \<and> length xs \<le> (if speaking b = None then 0 else 1)"
proof (cases "speaking b")
  case None
  then show ?thesis
    by (intro exI [where x = "[]"]) (simp add: update_speaking_def assigns_def)
next
  case (Some v)
  have f: "assigns a (a\<lparr>state := (state a)\<lparr>isSpeaking := v\<rparr>\<rparr>) []"
    by (simp add: assigns_def)
  show ?thesis
  proof (cases v)
    case True
    then show ?thesis
      using setAnimation_step [OF f]
      by (simp add: Some update_speaking_def Let_def)
  next
    case False
    then show ?thesis
      using setAnimation_step [OF f] assigns_nothing [OF f]
      by (simp add: Some update_speaking_def Let_def)
  qed
qed

lemma update_thinking_assigns:
  "\<exists>xs. assigns a (update_thinking b a) xs
        \<and> length xs \<le> (if thinking b = None then 0 else 1)"
proof (cases "thinking b")
  case None
  then show ?thesis
    by (intro exI [where x = "[]"]) (simp add: update_thinking_def assigns_def)
next
  case (Some v)
  have f: "assigns a (a\<lparr>state := (state a)\<lparr>isThinking := v\<rparr>\<rparr>) []"
    by (simp add: assigns_def)
  show ?thesis
  proof (cases v)
    case True
    then show ?thesis
      using setAnimation_step [OF f]
      by (simp add: Some update_thinking_def Let_def)
  next
    case False
    then show ?thesis
      using setAnimation_step [OF f] assigns_nothing [OF f]
      by (simp add: Some update_thinking_def Let_def)
  qed
qed

lemma update_browser_assigns:
  "\<exists>xs. assigns a (update_browser b a) xs
        \<and> length xs \<le> (if browser_active b = None then 0 else 1)"
proof (cases "browser_active b")
  case None
  then show ?thesis
    by (intro exI [where x = "[]"]) (simp add: update_browser_def assigns_def)
next
  case (Some v)
  have f: "assigns a (a\<lparr>state := (state a)\<lparr>browserActive := v\<rparr>\<rparr>) []"
    by (simp add: assigns_def)
  show ?thesis
  proof (cases v)
    case True
    then show ?thesis
      using setAnimation_step [OF f]
      by (simp add: Some update_browser_def Let_def)
  next
    case False
    then show ?thesis
      using setAnimation_step [OF f] assigns_nothing [OF f]
      by (simp add: Some update_browser_def Let_def)
  qed
qed

lemma update_animations_assigns:
  "\<exists>xs. assigns a (update_animations b a) xs
        \<and> length xs \<le> (case animations b of Some (y # ys) \<Rightarrow> 1 | _ \<Rightarrow> 0)"
proof (cases "\<exists>y ys. animations b = Some (y # ys)")
  case True
  then obtain y ys where s: "animations b = Some (y # ys)"
    by blast
  have f: "assigns a a []"
    by (simp add: assigns_def)
  show ?thesis
    using setAnimation_step [OF f, of y] by (simp add: s update_animations_def)
next
  case False
  then have "update_animations b a = a"
      "(case animations b of Some (y # ys) \<Rightarrow> 1 | _ \<Rightarrow> 0) = (0::nat)"
    by (simp_all add: update_animations_def split: option.splits list.splits)
  then show ?thesis
    by (intro exI [where x = "[]"]) (simp add: assigns_def)
qed

lemma updateStateFromBackend_assigns:
  assumes "\<not> moved b (state a)"
  shows "\<exists>xs. assigns a (updateStateFromBackend b a) xs \<and> length xs \<le> animation_fields b"
proof -
  define a1 where "a1 = update_rotation b (update_position b a)"
  define a2 where "a2 = update_speaking b a1"
  define a3 where "a3 = update_thinking b a2"
  define a4 where "a4 = update_browser b a3"
  define a5 where "a5 = update_model b a4"
  have s1: "assigns a a1 []"
    using assigns_trans [OF update_position_assigns [OF assms]
            update_rotation_assigns [of "update_position b a" b]]
    by (simp add: a1_def)
  obtain xs where s2: "assigns a1 a2 xs" "length xs \<le> (if speaking b = None then 0 else 1)"
    using update_speaking_assigns [of a1 b] unfolding a2_def by blast
  obtain ys where s3: "assigns a2 a3 ys" "length ys \<le> (if thinking b = None then 0 else 1)"
    using update_thinking_assigns [of a2 b] unfolding a3_def by blast
  obtain zs where s4: "assigns a3 a4 zs"
      "length zs \<le> (if browser_active b = None then 0 else 1)"
    using update_browser_assigns [of a3 b] unfolding a4_def by blast
  have s5: "assigns a4 a5 []"
    unfolding a5_def by (rule update_model_assigns)
  obtain ws where s6: "assigns a5 (update_animations b a5) ws"
      "length ws \<le> (case animations b of Some (y # ys) \<Rightarrow> 1 | _ \<Rightarrow> 0)"
    using update_animations_assigns [of a5 b] by blast
  have u: "updateStateFromBackend b a = update_animations b a5"
    by (simp add: updateStateFromBackend_def a1_def a2_def a3_def a4_def a5_def)
  have "assigns a a2 xs"
    using assigns_trans [OF s1 s2(1)] by simp
  then have "assigns a a3 (xs @ ys)"
    using s3(1) by (rule assigns_trans)
  then have "assigns a a4 ((xs @ ys) @ zs)"
    using s4(1) by (rule assigns_trans)
  then have "assigns a a5 ((xs @ ys) @ zs)"
    using assigns_trans [OF _ s5] by fastforce
  then have "assigns a (update_animations b a5) (((xs @ ys) @ zs) @ ws)"
    using s6(1) by (rule assigns_trans)
  moreover have "length (((xs @ ys) @ zs) @ ws) \<le> animation_fields b"
    using s2(2) s3(2) s4(2) s6(2) unfolding animation_fields_def
    by simp
  ultimately show ?thesis
    unfolding u by blast
qed

lemma updateStateFromBackend_assigns_again:
  "\<exists>xs. animationLog (updateStateFromBackend b (updateStateFromBackend b a))
          = animationLog (updateStateFromBackend b a) @ xs
        \<and> length xs \<le> animation_fields b
        \<and> last (currentAnimation (state (updateStateFromBackend b a)) # xs)
          = currentAnimation (state (updateStateFromBackend b a))"
proof -
  obtain xs where x: "assigns (updateStateFromBackend b a)
       (updateStateFromBackend b (updateStateFromBackend b a)) xs"
      "length xs \<le> animation_fields b"
    using updateStateFromBackend_assigns [OF reconciled_not_moved [of b a]] by blast
  have "last (currentAnimation (state (updateStateFromBackend b a)) # xs)
          = currentAnimation (state (updateStateFromBackend b a))"
    using x(1) updateStateFromBackend_state_again [of b a] by (simp add: assigns_def)
  then show ?thesis
    using x by (auto simp add: assigns_def)
qed

section \<open>Backoff policy\<close>

lemma pow2_attempt: "1 \<le> n \<Longrightarrow> power_int (2::real) (int n - 1) = 2 ^ (n - 1)"
  by (simp add: power_int_def nat_diff_distrib)

text \<open>Up to the fourth attempt the cap is not reached; from the fifth on it always is.\<close>

lemma backoffTime_uncapped:
  assumes "1 \<le> n" "n \<le> 4" "0 \<le> r" "r \<le> 1"
  shows "backoffTime n r = 5000 * 2 ^ (n - 1) * (0.9 + r * 0.2)"
proof -
  have "(2::real) ^ (n - 1) \<le> 2 ^ 3"
    by (rule power_increasing) (use assms in auto)
  then have x: "5000 * (2::real) ^ (n - 1) \<le> 40000" by simp
  have "5000 * (2::real) ^ (n - 1) * (0.9 + r * 0.2) \<le> 40000 * 1.1"
    by (rule mult_mono) (use x assms in auto)
  then show ?thesis
    using assms(1) by (simp add: backoffTime_def pow2_attempt)
qed

lemma backoffTime_capped:
  assumes "5 \<le> n" "0 \<le> r"
  shows "backoffTime n r = 60000"
proof -
  have "(2::real) ^ 4 \<le> 2 ^ (n - 1)"
    by (rule power_increasing) (use assms in auto)
  then have x: "80000 \<le> 5000 * (2::real) ^ (n - 1)" by simp
  have "80000 * 0.9 \<le> 5000 * (2::real) ^ (n - 1) * (0.9 + r * 0.2)"
    by (rule mult_mono) (use x assms in auto)
  then show ?thesis
    using assms(1) by (simp add: backoffTime_def pow2_attempt)
qed

lemma backoffTime_window:
  assumes "1 \<le> n" "0 \<le> r" "r \<le> 1"
  shows "0.9 * min 60000 (5000 * 2 ^ (n - 1)) \<le> backoffTime n r
       \<and> backoffTime n r \<le> 1.1 * min 60000 (5000 * 2 ^ (n - 1))"
proof (cases "n \<le> 4")
  case True
  have "(2::real) ^ (n - 1) \<le> 2 ^ 3"
    by (rule power_increasing) (use True in auto)
  then have "5000 * (2::real) ^ (n - 1) \<le> 40000" by simp
  then have m: "min 60000 (5000 * (2::real) ^ (n - 1)) = 5000 * 2 ^ (n - 1)" by simp
  have p: "0 \<le> 5000 * (2::real) ^ (n - 1)" by simp
  show ?thesis
    unfolding m backoffTime_uncapped [OF assms(1) True assms(2,3)]
    using assms(2,3) p by (simp add: algebra_simps)
next
  case False
  then have n: "5 \<le> n" by simp
  have "(2::real) ^ 4 \<le> 2 ^ (n - 1)"
    by (rule power_increasing) (use n in auto)
  then have "80000 \<le> 5000 * (2::real) ^ (n - 1)" by simp
  then have m: "min 60000 (5000 * (2::real) ^ (n - 1)) = 60000" by simp
  show ?thesis
    unfolding m backoffTime_capped [OF n assms(2)] by simp
qed

lemma scheduleReconnect_below_max:
  "connectionAttempts a < MAX_ATTEMPTS \<Longrightarrow>
     timers (scheduleReconnect e a) =
       timers a @ [\<lparr>cb = Reconnect,
                    delay = backoffTime (connectionAttempts a) (math_random e),
                    repeating = False, active = True\<rparr>]"
  by (simp add: scheduleReconnect_def setTimeout_def agent_log_def)

lemma scheduleReconnect_at_max:
  "MAX_ATTEMPTS \<le> connectionAttempts a \<Longrightarrow> timers (scheduleReconnect e a) = timers a"
  by (simp add: scheduleReconnect_def console_error_def)

text \<open>
  Claim C3. For every attempt number \<open>n\<close> from 1 to 10 and every jitter draw (the factor
  \<open>0.9 + r * 0.2\<close> with \<open>r\<close> in \<open>[0, 1]\<close>), the delay computed by
  \<^verbatim>\<open>scheduleReconnect\<close> lies within \<open>[0.9, 1.1] * min 60000 (5000 * 2 ^ (n - 1))\<close>
  milliseconds. A retry timer with that delay is registered when the attempt count is
  below 10, and none is registered once the count has reached 10.
\<close>

theorem backoff_window_and_retry_cutoff:
  "(1 \<le> n \<and> n \<le> 10 \<and> 0 \<le> r \<and> r \<le> 1 \<longrightarrow>
      0.9 * min 60000 (5000 * 2 ^ (n - 1)) \<le> backoffTime n r
      \<and> backoffTime n r \<le> 1.1 * min 60000 (5000 * 2 ^ (n - 1)))
   \<and> (connectionAttempts a < 10 \<longrightarrow>
        timers (scheduleReconnect e a) =
          timers a @ [\<lparr>cb = Reconnect,
                       delay = backoffTime (connectionAttempts a) (math_random e),
                       repeating = False, active = True\<rparr>])
   \<and> (10 \<le> connectionAttempts a \<longrightarrow> timers (scheduleReconnect e a) = timers a)"
  using backoffTime_window [of n r] scheduleReconnect_below_max [of a e]
    scheduleReconnect_at_max [of a e]
  by (simp add: MAX_ATTEMPTS_def)

theorem backoff_window_and_retry_cutoff_witness:
  "backoffTime 3 (1 / 2) = 20000
   \<and> 0.9 * min 60000 (5000 * 2 ^ (3 - 1)) \<le> backoffTime 3 (1 / 2)
   \<and> backoffTime 3 (1 / 2) \<le> 1.1 * min 60000 (5000 * 2 ^ (3 - 1))
   \<and> timers (scheduleReconnect (at_time 0) (example_agent\<lparr>connectionAttempts := 3\<rparr>)) =
       [\<lparr>cb = Reconnect, delay = 20000, repeating = False, active = True\<rparr>]
   \<and> timers (scheduleReconnect (at_time 0) (example_agent\<lparr>connectionAttempts := 10\<rparr>)) = []"
proof -
  have v: "backoffTime 3 (1 / 2) = 20000"
    by (simp add: backoffTime_def power_int_def)
  have t: "timers example_agent = []"
    by (simp add: example_agent_def new_agent_def agent_log_def)
  show ?thesis
    using backoff_window_and_retry_cutoff
            [of 3 "1 / 2" "example_agent\<lparr>connectionAttempts := 3\<rparr>" "at_time 0"]
          backoff_window_and_retry_cutoff
            [of 3 "1 / 2" "example_agent\<lparr>connectionAttempts := 10\<rparr>" "at_time 0"]
    by (simp add: v t at_time_def)
qed

section \<open>Voice input while the backend is not connected\<close>

lemma backend_open_cong:
  "socket b = socket a \<Longrightarrow> sockets b = sockets a \<Longrightarrow> backend_open b = backend_open a"
  by (simp add: backend_open_def readyState_of_def split: option.splits)

lemma sendVoiceInput_closed:
  "\<not> backend_open a \<Longrightarrow>
     sendVoiceInput w t a = agent_log ''Cannot send voice input: not connected to backend'' a"
  by (auto simp: backend_open_def sendVoiceInput_def split: option.splits)

lemma sendStateToBackend_closed: "\<not> backend_open a \<Longrightarrow> sendStateToBackend t a = a"
  by (auto simp: backend_open_def sendStateToBackend_def split: option.splits)

text \<open>
  Claim C10. A call of \<^verbatim>\<open>sendVoiceInput\<close> made while \<^verbatim>\<open>this.socket\<close> is absent or
  not in the \<open>OPEN\<close> state sends nothing and leaves \<open>chatHistory\<close> as it is. So a chat
  message of another sender that reaches \<^verbatim>\<open>handleIncomingChat\<close> while disconnected is
  not recorded in \<open>chatHistory\<close>, and nothing is sent, although \<open>lastInteraction\<close> is set
  to the time of the call.
\<close>

theorem voice_input_dropped_while_disconnected:
  assumes "\<not> backend_open a"
  shows "sent (sendVoiceInput w t a) = sent a
       \<and> chatHistory (state (sendVoiceInput w t a)) = chatHistory (state a)
       \<and> (fromId m \<noteq> player_id (world a) \<longrightarrow>
            sent (handleIncomingChat m t a) = sent a
          \<and> chatHistory (state (handleIncomingChat m t a)) = chatHistory (state a)
          \<and> lastInteraction (state (handleIncomingChat m t a)) = t)"
proof -
  define a1 where "a1 = agent_log ''Received chat message:'' a"
  define a2 where "a2 = agent_log ''Cannot send voice input: not connected to backend'' a1"
  define a3 where "a3 = a2\<lparr>state := (state a2)\<lparr>lastInteraction := t\<rparr>\<rparr>"
  have c1: "\<not> backend_open a1"
    using assms backend_open_cong [of a1 a] by (simp add: a1_def agent_log_def)
  have c3: "\<not> backend_open a3"
    using c1 backend_open_cong [of a3 a1] by (simp add: a3_def a2_def agent_log_def)
  have h: "fromId m \<noteq> player_id (world a) \<Longrightarrow> handleIncomingChat m t a = a3"
    using sendVoiceInput_closed [OF c1] sendStateToBackend_closed [OF c3]
    by (simp add: handleIncomingChat_def updateInteraction_def Let_def a1_def [symmetric]
          a2_def a3_def)
       (simp add: a1_def agent_log_def)
  have f: "sent a3 = sent a" "chatHistory (state a3) = chatHistory (state a)"
    "lastInteraction (state a3) = t"
    by (simp_all add: a3_def a2_def a1_def agent_log_def)
  show ?thesis
    using sendVoiceInput_closed [OF assms, of w t] h f by (simp add: agent_log_def)
qed

theorem voice_input_dropped_while_disconnected_witness:
  "\<not> backend_open example_agent
   \<and> \<not> backend_open (start (at_time 0) example_agent)
   \<and> sent (sendVoiceInput ''hello'' 5 example_agent) = []
   \<and> chatHistory (state (sendVoiceInput ''hello'' 5 (start (at_time 0) example_agent))) = []
   \<and> chatHistory (state (handleIncomingChat
        \<lparr>from_name = ''visitor'', fromId = Some ''visitor-1'', body = ''hello''\<rparr> 5
        (start (at_time 0) example_agent))) = []
   \<and> lastInteraction (state (handleIncomingChat
        \<lparr>from_name = ''visitor'', fromId = Some ''visitor-1'', body = ''hello''\<rparr> 5
        (start (at_time 0) example_agent))) = 5"
proof -
  have o: "\<not> backend_open example_agent" "\<not> backend_open (start (at_time 0) example_agent)"
    by (simp_all add: backend_open_def model_defs)
  have e: "sent example_agent = []" "chatHistory (state example_agent) = []"
    "sent (start (at_time 0) example_agent) = []"
    "chatHistory (state (start (at_time 0) example_agent)) = []"
    "player_id (world (start (at_time 0) example_agent)) = Some ''pope''"
    by (simp_all add: model_defs)
  show ?thesis
    using voice_input_dropped_while_disconnected [OF o(1), of "''hello''" 5]
      voice_input_dropped_while_disconnected [OF o(2), of "''hello''" 5
        "\<lparr>from_name = ''visitor'', fromId = Some ''visitor-1'', body = ''hello''\<rparr>"]
    by (simp add: o e)
qed

section \<open>The liveness probe\<close>

text \<open>
  Claim C4. For a loopback target (\<^verbatim>\<open>localhost\<close> or \<^verbatim>\<open>127.0.0.1\<close>), when the probe
  reports the backend unavailable (a response that is not ok, or a failed or aborted
  fetch), \<^verbatim>\<open>connectToBackend\<close> returns a promise rejected with
  \<^verbatim>\<open>Backend server unavailable\<close>: no socket is created, \<^verbatim>\<open>this.socket\<close> is left as it
  is, no 30 s handshake timer is registered and nothing is sent.
\<close>

theorem probe_failure_rejects_at_once:
  assumes "popeBackendUrl (config a) = Some u"
    and "hostname u = ''localhost'' \<or> hostname u = ''127.0.0.1''"
    and "fetch e \<noteq> Response True"
  shows "fst (connectToBackend e a) = RejectedNow ''Backend server unavailable''
       \<and> sockets (snd (connectToBackend e a)) = sockets a
       \<and> socket (snd (connectToBackend e a)) = socket a
       \<and> timers (snd (connectToBackend e a)) = timers a
       \<and> sent (snd (connectToBackend e a)) = sent a"
  using assms
  by (cases "fetch e")
     (auto simp: connectToBackend_def checkBackendStatus_def agent_log_def Let_def)

theorem probe_failure_rejects_at_once_witness:
  "fst (connectToBackend ((at_time 0)\<lparr>fetch := FetchError\<rparr>) example_agent)
     = RejectedNow ''Backend server unavailable''
   \<and> sockets (snd (connectToBackend ((at_time 0)\<lparr>fetch := FetchError\<rparr>) example_agent)) = []
   \<and> socket (snd (connectToBackend ((at_time 0)\<lparr>fetch := FetchError\<rparr>) example_agent)) = None
   \<and> timers (snd (connectToBackend ((at_time 0)\<lparr>fetch := Response False\<rparr>) example_agent)) = []"
proof -
  have c: "popeBackendUrl (config example_agent)
             = Some \<lparr>protocol = ''ws:'', hostname = ''localhost'', port = ''8765''\<rparr>"
    "sockets example_agent = []" "socket example_agent = None" "timers example_agent = []"
    by (simp_all add: example_agent_def example_config_def new_agent_def agent_log_def)
  show ?thesis
    using probe_failure_rejects_at_once [OF c(1), of "(at_time 0)\<lparr>fetch := FetchError\<rparr>"]
      probe_failure_rejects_at_once [OF c(1), of "(at_time 0)\<lparr>fetch := Response False\<rparr>"]
    by (simp add: c at_time_def)
qed

section \<open>The message router\<close>

lemma handleBackendMessage_channel:
  "sockets (handleBackendMessage d a) = sockets a \<and> socket (handleBackendMessage d a) = socket a"
  by (cases d)
     (auto simp: handleBackendMessage_def dispatch_def playAudio_def updatePhysicsObjects_def
        updateStateFromBackend_others agent_log_def console_error_def Let_def
        split: option.splits sum.splits if_splits)




section \<open>Animation and concern flags\<close>

text \<open>
  Claim C2, as the source has it. There is no precedence among the concerns: every block
  that sets a flag sets its own animation, so with \<open>moving\<close> and \<open>speaking\<close> both true the
  animation is that of whichever was set last: \<open>walking\<close> once \<^verbatim>\<open>moveToPosition\<close> has
  run, whatever \<open>speaking\<close> is, and \<open>talking\<close> after an update whose only
  animation-setting field is \<open>speaking: true\<close>, also while moving. When the movement
  timer clears \<open>moving\<close> while \<open>speaking\<close> is true, the animation is left as it is (no
  idle state is entered, and none of \<open>talking\<close> either).
\<close>

theorem speaking_overrides_moving:
  "map_option (\<lambda>a. (isMoving (state a), isSpeaking (state a), currentAnimation (state a)))
     (run (connect_and_start @
        [SocketMessage 0
           (update_message (no_update\<lparr>position := Some [1, 0, 0], speaking := Some True\<rparr>))])
        example_agent) = Some (True, True, ''talking'')
   \<and> map_option (\<lambda>a. (isMoving (state a), isSpeaking (state a), currentAnimation (state a)))
     (run (connect_and_start @
        [SocketMessage 0 (update_message (no_update\<lparr>speaking := Some True\<rparr>)),
         SocketMessage 0 (update_message (no_update\<lparr>position := Some [1, 0, 0]\<rparr>)),
         Fire 4 (at_time 1500)])
        example_agent) = Some (False, True, ''walking'')"
  by (simp add: model_defs)

theorem animation_follows_last_setter:
  "isMoving (state (moveToPosition p a))
   \<and> currentAnimation (state (moveToPosition p a)) = ''walking''
   \<and> isSpeaking (state (moveToPosition p a)) = isSpeaking (state a)
   \<and> (speaking b = Some True \<and> animation_fields b = 1 \<longrightarrow>
        isSpeaking (state (updateStateFromBackend b a))
        \<and> currentAnimation (state (updateStateFromBackend b a)) = ''talking''
        \<and> (isMoving (state a) \<longrightarrow> isMoving (state (updateStateFromBackend b a))))
   \<and> (isSpeaking (state a) \<longrightarrow>
        \<not> isMoving (state (movementComplete a))
        \<and> isSpeaking (state (movementComplete a))
        \<and> currentAnimation (state (movementComplete a)) = currentAnimation (state a)
        \<and> animationLog (movementComplete a) = animationLog a)"
proof -
  have m: "state (moveToPosition p a) =
      (state a)\<lparr>isMoving := True, currentAnimation := ''walking'', currentPosition := p\<rparr>"
    by (simp add: moveToPosition_def setTimeout_def setAnimation_state Let_def agent_log_def)
  have u: "currentAnimation (state (updateStateFromBackend b a)) = ''talking''"
    if "speaking b = Some True" "animation_fields b = 1"
    using that
    by (cases "thinking b"; cases "browser_active b"; cases "animations b")
       (auto simp: updateStateFromBackend_state animation_after_def after_animations_def
          after_browser_def after_thinking_def after_speaking_def animation_fields_def
          split: list.splits)
  show ?thesis
    using u by (simp add: m updateStateFromBackend_state value_after_def movementComplete_def)
qed

theorem animation_follows_last_setter_witness:
  "currentAnimation (state (updateStateFromBackend (no_update\<lparr>speaking := Some True\<rparr>)
       (moveToPosition [1, 0, 0] example_agent))) = ''talking''
   \<and> isMoving (state (updateStateFromBackend (no_update\<lparr>speaking := Some True\<rparr>)
       (moveToPosition [1, 0, 0] example_agent)))
   \<and> currentAnimation (state (movementComplete (moveToPosition [1, 0, 0]
       (updateStateFromBackend (no_update\<lparr>speaking := Some True\<rparr>) example_agent))))
       = ''walking''"
proof -
  have b: "speaking (no_update\<lparr>speaking := Some True\<rparr>) = Some True"
    "animation_fields (no_update\<lparr>speaking := Some True\<rparr>) = 1"
    by (simp_all add: no_update_def animation_fields_def)
  have s: "isSpeaking (state (moveToPosition [1, 0, 0]
             (updateStateFromBackend (no_update\<lparr>speaking := Some True\<rparr>) example_agent)))"
    by (simp add: model_defs)
  show ?thesis
    using animation_follows_last_setter
            [where a = "moveToPosition [1, 0, 0] example_agent"
               and b = "no_update\<lparr>speaking := Some True\<rparr>"]
          animation_follows_last_setter [where p = "[1, 0, 0]" and a = example_agent]
          animation_follows_last_setter
            [where p = "[1, 0, 0]"
               and a = "updateStateFromBackend (no_update\<lparr>speaking := Some True\<rparr>)
                          example_agent"]
          animation_follows_last_setter
            [where a = "moveToPosition [1, 0, 0]
                (updateStateFromBackend (no_update\<lparr>speaking := Some True\<rparr>) example_agent)"]
    by (simp add: b s)
qed

text \<open>
  Claim C5. When an update clears \<open>speaking\<close>, the animation must not become \<open>idle\<close>
  while \<open>browsing\<close> is still active. The source tests \<open>moving\<close> and \<open>thinking\<close> only:
  here the backend sets \<open>speaking\<close>, then \<open>browser_active\<close>, then clears \<open>speaking\<close>,
  and the agent ends in \<open>idle\<close> with \<open>browserActive\<close> still true.
\<close>

theorem speaking_cleared_while_browsing_goes_idle:
  "map_option (\<lambda>a. (browserActive (state a), currentAnimation (state a)))
     (run (connect_and_start @
        [SocketMessage 0 (update_message (no_update\<lparr>speaking := Some True\<rparr>)),
         SocketMessage 0 (update_message (no_update\<lparr>browser_active := Some True\<rparr>))])
        example_agent) = Some (True, ''browsing'')
   \<and> map_option (\<lambda>a. (browserActive (state a), isSpeaking (state a), isMoving (state a),
                        isThinking (state a), currentAnimation (state a)))
     (run (connect_and_start @
        [SocketMessage 0 (update_message (no_update\<lparr>speaking := Some True\<rparr>)),
         SocketMessage 0 (update_message (no_update\<lparr>browser_active := Some True\<rparr>)),
         SocketMessage 0 (update_message (no_update\<lparr>speaking := Some False\<rparr>))])
        example_agent) = Some (True, False, False, False, ''idle'')"
  by (simp add: model_defs)

section \<open>Applying an update twice\<close>

text \<open>
  Claim C9, as the source has it. Applying the same update a second time leaves every
  field of the agent's state as the first application left it, registers no timer (no
  movement is started) and sends nothing. When the update carries at most one of the
  fields that set an animation (\<open>speaking\<close>, \<open>thinking\<close>, \<open>browser_active\<close>, a non-empty
  \<open>animations\<close>) the second application changes nothing at all: the log of animation
  changes is the one the first application left. When the update carries several of
  them, the second application may change \<open>currentAnimation\<close> in passing, as it does for
  \<open>speaking\<close> and \<open>thinking\<close> both true (thinking, then talking, then thinking again). It
  changes it at most once for each such field, and the last change, when there is one,
  puts back the animation that the first application left.
\<close>

theorem second_application_changes_animation:
  "map_option animationLog
     (run (connect_and_start @
        [SocketMessage 0
           (update_message (no_update\<lparr>speaking := Some True, thinking := Some True\<rparr>))])
        example_agent) = Some [''talking'', ''thinking'']
   \<and> map_option animationLog
     (run (connect_and_start @
        [SocketMessage 0
           (update_message (no_update\<lparr>speaking := Some True, thinking := Some True\<rparr>)),
         SocketMessage 0
           (update_message (no_update\<lparr>speaking := Some True, thinking := Some True\<rparr>))])
        example_agent) = Some [''talking'', ''thinking'', ''talking'', ''thinking'']"
  by (simp add: model_defs)

theorem reconciliation_idempotent_on_state:
  "state (updateStateFromBackend b (updateStateFromBackend b a))
     = state (updateStateFromBackend b a)
   \<and> timers (updateStateFromBackend b (updateStateFromBackend b a))
     = timers (updateStateFromBackend b a)
   \<and> sent (updateStateFromBackend b (updateStateFromBackend b a))
     = sent (updateStateFromBackend b a)
   \<and> (animation_fields b \<le> 1 \<longrightarrow>
        animationLog (updateStateFromBackend b (updateStateFromBackend b a))
          = animationLog (updateStateFromBackend b a)
        \<and> updateStateFromBackend b (updateStateFromBackend b a) = updateStateFromBackend b a)
   \<and> (\<exists>xs. animationLog (updateStateFromBackend b (updateStateFromBackend b a))
             = animationLog (updateStateFromBackend b a) @ xs
           \<and> length xs \<le> animation_fields b
           \<and> last (currentAnimation (state (updateStateFromBackend b a)) # xs)
             = currentAnimation (state (updateStateFromBackend b a)))"
  using updateStateFromBackend_state_again [of b a] updateStateFromBackend_again [of b a]
    reconciled_not_moved [of b a] updateStateFromBackend_assigns_again [of b a]
  by (simp add: updateStateFromBackend_others)

theorem reconciliation_idempotent_on_state_witness:
  "animation_fields (no_update\<lparr>position := Some [1, 0, 0], speaking := Some True\<rparr>) = 1
   \<and> updateStateFromBackend (no_update\<lparr>position := Some [1, 0, 0], speaking := Some True\<rparr>)
       (updateStateFromBackend (no_update\<lparr>position := Some [1, 0, 0], speaking := Some True\<rparr>)
          example_agent)
     = updateStateFromBackend (no_update\<lparr>position := Some [1, 0, 0], speaking := Some True\<rparr>)
         example_agent
   \<and> animationLog (updateStateFromBackend
         (no_update\<lparr>position := Some [1, 0, 0], speaking := Some True\<rparr>)
         (updateStateFromBackend
            (no_update\<lparr>position := Some [1, 0, 0], speaking := Some True\<rparr>) example_agent))
     = [''walking'', ''talking'']
   \<and> currentAnimation (state (updateStateFromBackend
         (no_update\<lparr>position := Some [1, 0, 0], speaking := Some True\<rparr>) example_agent))
     = ''talking''"
proof -
  have f: "animation_fields (no_update\<lparr>position := Some [1, 0, 0], speaking := Some True\<rparr>) = 1"
    by (simp add: no_update_def animation_fields_def)
  have c: "currentAnimation (state (updateStateFromBackend
         (no_update\<lparr>position := Some [1, 0, 0], speaking := Some True\<rparr>) example_agent))
     = ''talking''"
    "animationLog (updateStateFromBackend
         (no_update\<lparr>position := Some [1, 0, 0], speaking := Some True\<rparr>) example_agent)
     = [''walking'', ''talking'']"
    by (simp_all add: model_defs)
  show ?thesis
    using reconciliation_idempotent_on_state
            [of "no_update\<lparr>position := Some [1, 0, 0], speaking := Some True\<rparr>" example_agent]
    by (simp add: f c)
qed

section \<open>The two connection flags\<close>

text \<open>No step but \<^verbatim>\<open>stop\<close> clears \<open>isConnected\<close>.\<close>

named_theorems keeps_connected

lemma connected_basic [keeps_connected]:
  "isConnected (state (agent_log l a)) = isConnected (state a)"
  "isConnected (state (console_error l a)) = isConnected (state a)"
  "isConnected (state (setTimeout f d a)) = isConnected (state a)"
  "isConnected (state (setInterval f d a)) = isConnected (state a)"
  "isConnected (state (clearTimer h a)) = isConnected (state a)"
  "isConnected (state (set_readyState s r a)) = isConnected (state a)"
  "isConnected (state (socket_send s m a)) = isConnected (state a)"
  "isConnected (state (set_awaiter s w a)) = isConnected (state a)"
  "isConnected (state (settle s p a)) = isConnected (state a)"
  "isConnected (state (loadCharacter e a)) = isConnected (state a)"
  by (simp_all add: agent_log_def console_error_def setTimeout_def setInterval_def
        clearTimer_def set_readyState_def socket_send_def set_awaiter_def settle_def
        loadCharacter_def Let_def split: option.splits)

lemma connected_socket_close [keeps_connected]:
  "isConnected (state (socket_close s a)) = isConnected (state a)"
  by (simp add: socket_close_def keeps_connected split: option.splits ready_state.splits)

lemma connected_animation [keeps_connected]:
  "isConnected (state (setAnimation x a)) = isConnected (state a)"
  "isConnected (state (rotateTo r a)) = isConnected (state a)"
  "isConnected (state (moveToPosition p a)) = isConnected (state a)"
  "isConnected (state (movementComplete a)) = isConnected (state a)"
  by (simp_all add: setAnimation_state rotateTo_def moveToPosition_def movementComplete_def
        Let_def keeps_connected)

lemma connected_outbound [keeps_connected]:
  "isConnected (state (sendStateToBackend t a)) = isConnected (state a)"
  "isConnected (state (sendVoiceInput w t a)) = isConnected (state a)"
  by (simp_all add: sendStateToBackend_def sendVoiceInput_def Let_def keeps_connected
        split: option.splits)

lemma connected_chat [keeps_connected]:
  "isConnected (state (updateInteraction t a)) = isConnected (state a)"
  "isConnected (state (handleIncomingChat m t a)) = isConnected (state a)"
  by (simp_all add: updateInteraction_def handleIncomingChat_def Let_def keeps_connected)

lemma connected_greeting [keeps_connected]:
  "isConnected (state (sendAction k r a)) = isConnected (state a)"
  "isConnected (state (lookAt p a)) = isConnected (state a)"
  "isConnected (state (greetingRevert a)) = isConnected (state a)"
  by (simp_all add: sendAction_def lookAt_def greetingRevert_def Let_def keeps_connected
        split: option.splits)

lemma connected_onPlayerNearby [keeps_connected]:
  "isConnected (state (onPlayerNearby p e a)) = isConnected (state a)"
  by (simp add: onPlayerNearby_def Let_def keeps_connected)

lemma connected_router [keeps_connected]:
  "isConnected (state (updateStateFromBackend b a)) = isConnected (state a)"
  "isConnected (state (handleBackendMessage d a)) = isConnected (state a)"
  by (simp_all add: updateStateFromBackend_state handleBackendMessage_def dispatch_def
        playAudio_def updatePhysicsObjects_def Let_def keeps_connected
        split: payload.splits sum.splits option.splits)

lemma connected_connect [keeps_connected]:
  "isConnected (state (snd (checkBackendStatus e a))) = isConnected (state a)"
  "isConnected (state (snd (connectToBackend e a))) = isConnected (state a)"
  by (simp_all add: checkBackendStatus_def connectToBackend_def Let_def keeps_connected
        split: option.splits fetch_outcome.splits prod.splits)

lemma connected_reconnect [keeps_connected]:
  "isConnected (state (scheduleReconnect e a)) = isConnected (state a)"
  "isConnected (state (reconnect e a)) = isConnected (state a)"
  by (simp_all add: scheduleReconnect_def reconnect_def Let_def case_prod_beta keeps_connected
        split: connecting.splits)

lemma connected_handlers [keeps_connected]:
  "isConnected (state (socket_onopen s e a)) = isConnected (state a)"
  "isConnected (state (socket_onclose s e a)) = isConnected (state a)"
  "isConnected (state (socket_onerror s a)) = isConnected (state a)"
  "isConnected (state (handshakeTimeout s a)) = isConnected (state a)"
  by (simp_all add: socket_onopen_def socket_onclose_def socket_onerror_def
        handshakeTimeout_def Let_def keeps_connected split: option.splits)

lemma connected_idle [keeps_connected]:
  "isConnected (state (startIdleBehaviors a)) = isConnected (state a)"
  "isConnected (state (idleAnimation e a)) = isConnected (state a)"
  "isConnected (state (idleRevert e a)) = isConnected (state a)"
  "isConnected (state (lookAround e a)) = isConnected (state a)"
  "isConnected (state (connectionMonitorTick e a)) = isConnected (state a)"
  by (simp_all add: startIdleBehaviors_def idleAnimation_def idleRevert_def lookAround_def
        connectionMonitorTick_def Let_def keeps_connected)

lemma connected_start_resume: "isConnected (state (start_resume a))"
  by (simp add: start_resume_def Let_def)

lemma connected_start: "isConnected (state a) \<Longrightarrow> isConnected (state (start e a))"
  by (simp add: start_def Let_def case_prod_beta connected_start_resume keeps_connected
        split: connecting.splits)

lemma connected_fire: "isConnected (state (fire h e a)) = isConnected (state a)"
  by (simp add: fire_def run_callback_def Let_def keeps_connected split: callback.splits)

lemma connected_resume: "isConnected (state a) \<Longrightarrow> isConnected (state (resume s a))"
  by (simp add: resume_def Let_def connected_start_resume keeps_connected
        split: awaiter.splits promise.splits)

lemma connected_step:
  "step ev a = Some a' \<Longrightarrow> ev \<noteq> Stop \<Longrightarrow> isConnected (state a) \<Longrightarrow> isConnected (state a')"
  by (cases ev)
     (auto simp: step_def connected_start connected_fire connected_resume keeps_connected
        split: if_splits)

lemma connected_run:
  "run evs a = Some a' \<Longrightarrow> Stop \<notin> set evs \<Longrightarrow> isConnected (state a) \<Longrightarrow>
     isConnected (state a')"
proof (induction evs arbitrary: a)
  case Nil
  then show ?case by simp
next
  case (Cons ev evs)
  from Cons.prems(1) obtain a1 where s: "step ev a = Some a1" and r: "run evs a1 = Some a'"
    by (auto split: option.splits)
  have "isConnected (state a1)"
    using connected_step [OF s] Cons.prems(2,3) by auto
  then show ?case
    using Cons.IH [OF r] Cons.prems(2) by simp
qed

text \<open>
  Claim C6, as the source has it. \<open>isBackendConnected\<close> is set by the socket's
  \<^verbatim>\<open>open\<close> handler and \<open>isConnected\<close> by the last line of \<^verbatim>\<open>start\<close>, so
  \<open>backendConnected\<close> is true while \<open>connected\<close> is false between the handshake and the
  end of \<^verbatim>\<open>start\<close>, and again once \<^verbatim>\<open>stop\<close> has returned (until the \<^verbatim>\<open>close\<close>
  event arrives). What holds: from the end of \<^verbatim>\<open>start\<close> until \<^verbatim>\<open>stop\<close> is called,
  \<open>connected\<close> stays true whatever happens, so \<open>backendConnected\<close> implies it there; the
  converse need not hold.
\<close>

theorem backend_connected_while_not_connected:
  "map_option (\<lambda>a. (isBackendConnected (state a), isConnected (state a)))
     (run [Start (at_time 0), SocketOpen 0 (at_time 100)] example_agent) = Some (True, False)
   \<and> map_option (\<lambda>a. (isBackendConnected (state a), isConnected (state a)))
     (run (connect_and_start @ [Stop]) example_agent) = Some (True, False)"
  by (simp add: model_defs)

theorem connected_from_start_until_stop:
  assumes "run evs a = Some a'" and "Stop \<notin> set evs" and "isConnected (state a)"
  shows "isConnected (state a') \<and> (isBackendConnected (state a') \<longrightarrow> isConnected (state a'))"
  using connected_run [OF assms] by simp

theorem connected_from_start_until_stop_witness:
  "run connect_and_start example_agent = Some started_agent
   \<and> isConnected (state started_agent) \<and> isBackendConnected (state started_agent)
   \<and> run [SocketClose 0 (at_time 59000)] started_agent
       = Some (socket_onclose 0 (at_time 59000) (set_readyState 0 CLOSED started_agent))
   \<and> isConnected (state (socket_onclose 0 (at_time 59000)
         (set_readyState 0 CLOSED started_agent)))
   \<and> \<not> isBackendConnected (state (socket_onclose 0 (at_time 59000)
         (set_readyState 0 CLOSED started_agent)))"
proof -
  have r: "run connect_and_start example_agent = Some started_agent"
    by (simp add: model_defs)
  have c: "isConnected (state started_agent)" "isBackendConnected (state started_agent)"
    by (simp_all add: model_defs)
  have q: "run [SocketClose 0 (at_time 59000)] started_agent
       = Some (socket_onclose 0 (at_time 59000) (set_readyState 0 CLOSED started_agent))"
    by (simp add: step_def awaited_settled_def readyState_of_def started_agent_def
          resume_def start_resume_def startIdleBehaviors_def setInterval_def setAnimation_def
          set_awaiter_def socket_onopen_def settle_def sendStateToBackend_def socket_send_def
          clearTimer_def set_readyState_def start_def loadCharacter_def connectToBackend_def
          checkBackendStatus_def setTimeout_def agent_log_def example_agent_def
          example_config_def example_world_def new_agent_def new_state_def at_time_def
          isInteracting_def Let_def)
  have n: "\<not> isBackendConnected (state (socket_onclose 0 (at_time 59000)
         (set_readyState 0 CLOSED started_agent)))"
    by (simp add: socket_onclose_def scheduleReconnect_def setTimeout_def console_error_def
          agent_log_def Let_def)
  show ?thesis
    using connected_from_start_until_stop [OF q _ c(1)] r c q n by simp
qed

section \<open>The handshake\<close>

named_theorems keeps_channel

lemma current_attempt_ok_cong:
  "socket b = socket a \<Longrightarrow> sockets b = sockets a \<Longrightarrow>
     current_attempt_ok b = current_attempt_ok a"
  by (simp add: current_attempt_ok_def)

lemma channel_basic [keeps_channel]:
  "socket (agent_log l a) = socket a" "sockets (agent_log l a) = sockets a"
  "socket (console_error l a) = socket a" "sockets (console_error l a) = sockets a"
  "socket (setTimeout f d a) = socket a" "sockets (setTimeout f d a) = sockets a"
  "socket (setInterval f d a) = socket a" "sockets (setInterval f d a) = sockets a"
  "socket (clearTimer h a) = socket a" "sockets (clearTimer h a) = sockets a"
  "socket (socket_send s m a) = socket a" "sockets (socket_send s m a) = sockets a"
  "socket (loadCharacter e a) = socket a" "sockets (loadCharacter e a) = sockets a"
  by (simp_all add: agent_log_def console_error_def setTimeout_def setInterval_def
        clearTimer_def socket_send_def loadCharacter_def Let_def split: option.splits)

lemma channel_animation [keeps_channel]:
  "socket (setAnimation x a) = socket a" "sockets (setAnimation x a) = sockets a"
  "socket (rotateTo r a) = socket a" "sockets (rotateTo r a) = sockets a"
  "socket (moveToPosition p a) = socket a" "sockets (moveToPosition p a) = sockets a"
  "socket (movementComplete a) = socket a" "sockets (movementComplete a) = sockets a"
  by (simp_all add: setAnimation_others rotateTo_def moveToPosition_def movementComplete_def
        Let_def keeps_channel)

lemma channel_outbound [keeps_channel]:
  "socket (sendStateToBackend t a) = socket a" "sockets (sendStateToBackend t a) = sockets a"
  "socket (sendVoiceInput w t a) = socket a" "sockets (sendVoiceInput w t a) = sockets a"
  by (simp_all add: sendStateToBackend_def sendVoiceInput_def Let_def keeps_channel
        split: option.splits)

lemma channel_chat [keeps_channel]:
  "socket (updateInteraction t a) = socket a" "sockets (updateInteraction t a) = sockets a"
  "socket (handleIncomingChat m t a) = socket a"
  "sockets (handleIncomingChat m t a) = sockets a"
  by (simp_all add: updateInteraction_def handleIncomingChat_def Let_def keeps_channel)

lemma channel_greeting [keeps_channel]:
  "socket (sendAction k r a) = socket a" "sockets (sendAction k r a) = sockets a"
  "socket (lookAt p a) = socket a" "sockets (lookAt p a) = sockets a"
  "socket (greetingRevert a) = socket a" "sockets (greetingRevert a) = sockets a"
  by (simp_all add: sendAction_def lookAt_def greetingRevert_def Let_def keeps_channel
        split: option.splits)

lemma channel_onPlayerNearby [keeps_channel]:
  "socket (onPlayerNearby p e a) = socket a" "sockets (onPlayerNearby p e a) = sockets a"
  by (simp_all add: onPlayerNearby_def Let_def keeps_channel)

lemma channel_probe [keeps_channel]:
  "socket (snd (checkBackendStatus e a)) = socket a"
  "sockets (snd (checkBackendStatus e a)) = sockets a"
  by (simp_all add: checkBackendStatus_def Let_def keeps_channel
        split: option.splits fetch_outcome.splits)

lemma channel_schedule [keeps_channel]:
  "socket (scheduleReconnect e a) = socket a" "sockets (scheduleReconnect e a) = sockets a"
  by (simp_all add: scheduleReconnect_def keeps_channel)

lemma channel_idle [keeps_channel]:
  "socket (startIdleBehaviors a) = socket a" "sockets (startIdleBehaviors a) = sockets a"
  "socket (stopIdleBehaviors a) = socket a" "sockets (stopIdleBehaviors a) = sockets a"
  "socket (idleAnimation e a) = socket a" "sockets (idleAnimation e a) = sockets a"
  "socket (idleRevert e a) = socket a" "sockets (idleRevert e a) = sockets a"
  "socket (lookAround e a) = socket a" "sockets (lookAround e a) = sockets a"
  "socket (connectionMonitorTick e a) = socket a"
  "sockets (connectionMonitorTick e a) = sockets a"
  by (simp_all add: startIdleBehaviors_def stopIdleBehaviors_def idleAnimation_def
        idleRevert_def lookAround_def connectionMonitorTick_def Let_def keeps_channel
        split: option.splits)

lemma channel_start_resume [keeps_channel]:
  "socket (start_resume a) = socket a" "sockets (start_resume a) = sockets a"
  by (simp_all add: start_resume_def Let_def keeps_channel)

lemma ok_frame:
  "socket b = socket a \<Longrightarrow> sockets b = sockets a \<Longrightarrow> current_attempt_ok a \<Longrightarrow>
     current_attempt_ok b"
  by (simp add: current_attempt_ok_def)

lemma ok_set_readyState:
  "r \<noteq> CONNECTING \<Longrightarrow> current_attempt_ok a \<Longrightarrow> current_attempt_ok (set_readyState s r a)"
  by (auto simp: current_attempt_ok_def set_readyState_def nth_list_update
        split: option.splits)

lemma ok_socket_close: "current_attempt_ok a \<Longrightarrow> current_attempt_ok (socket_close s a)"
  by (simp add: socket_close_def ok_set_readyState split: option.splits ready_state.splits)

lemma ok_set_awaiter: "current_attempt_ok a \<Longrightarrow> current_attempt_ok (set_awaiter s w a)"
  by (auto simp: current_attempt_ok_def set_awaiter_def nth_list_update split: option.splits)

lemma ok_settle:
  "current_attempt_ok a \<Longrightarrow>
   (socket a = Some s \<longrightarrow> readyState (sockets a ! s) \<noteq> CONNECTING) \<Longrightarrow>
     current_attempt_ok (settle s p a)"
  by (auto simp: current_attempt_ok_def settle_def nth_list_update split: option.splits)

lemma ok_connectToBackend:
  "current_attempt_ok a \<Longrightarrow> current_attempt_ok (snd (connectToBackend e a))"
  by (auto simp: connectToBackend_def Let_def case_prod_beta current_attempt_ok_def
        keeps_channel setTimeout_def agent_log_def nth_append)

lemma ok_reconnect: "current_attempt_ok a \<Longrightarrow> current_attempt_ok (reconnect e a)"
  using ok_connectToBackend [of "agent_log ''Attempting reconnection'' a" e]
    ok_frame [of "agent_log ''Attempting reconnection'' a" a]
  by (auto simp: reconnect_def Let_def case_prod_beta keeps_channel ok_set_awaiter
        intro: ok_frame [of "console_error l b" b for l b]
        split: connecting.splits)

lemma ok_start: "current_attempt_ok a \<Longrightarrow> current_attempt_ok (start e a)"
proof -
  assume a: "current_attempt_ok a"
  define a2 where
    "a2 = (loadCharacter e (agent_log ''Starting Pope agent'' a))\<lparr>connectionAttempts := 0\<rparr>"
  have "current_attempt_ok a2"
    using a by (rule ok_frame [rotated 2]) (simp_all add: a2_def keeps_channel)
  then have c: "current_attempt_ok (snd (connectToBackend e a2))"
    by (rule ok_connectToBackend)
  have r: "current_attempt_ok (start_resume (console_error l (snd (connectToBackend e a2))))" for l
    using c by (rule ok_frame [rotated 2]) (simp_all add: keeps_channel)
  show ?thesis
    using c r
    by (simp add: start_def Let_def case_prod_beta a2_def [symmetric] ok_set_awaiter
          split: connecting.splits)
qed

lemma ok_stop: "current_attempt_ok (stop a)"
  by (auto simp: stop_def Let_def current_attempt_ok_def split: option.splits)

lemma readyState_after_close:
  "readyState_of a c \<noteq> Some CLOSED \<Longrightarrow> c < length (sockets a) \<Longrightarrow>
     readyState (sockets (socket_close c a) ! c) \<noteq> CONNECTING"
  by (auto simp: socket_close_def readyState_of_def set_readyState_def
        split: ready_state.splits)

lemma ok_handshakeTimeout:
  assumes "current_attempt_ok a"
  shows "current_attempt_ok (handshakeTimeout s a)"
proof (cases "isBackendConnected (state a)")
  case True
  then show ?thesis using assms by (simp add: handshakeTimeout_def)
next
  case False
  define a1 where "a1 = agent_log ''Connection to backend timed out after 30 seconds'' a"
  have ok1: "current_attempt_ok a1"
    using assms by (rule ok_frame [rotated 2]) (simp_all add: a1_def keeps_channel)
  show ?thesis
  proof (cases "socket a1")
    case None
    then have "socket (settle s p a1) = None" for p
      by (simp add: settle_def)
    then have "current_attempt_ok (settle s p a1)" for p
      by (simp add: current_attempt_ok_def)
    then show ?thesis
      using False None by (simp add: handshakeTimeout_def Let_def a1_def [symmetric])
  next
    case (Some c)
    from ok1 Some have len: "c < length (sockets a1)"
      by (simp add: current_attempt_ok_def)
    show ?thesis
    proof (cases "readyState_of a1 c \<noteq> Some CLOSED")
      case True
      have "current_attempt_ok (settle s p (socket_close c a1))" for p
      proof (rule ok_settle)
        show "current_attempt_ok (socket_close c a1)"
          using ok1 by (rule ok_socket_close)
        show "socket (socket_close c a1) = Some s \<longrightarrow>
                readyState (sockets (socket_close c a1) ! s) \<noteq> CONNECTING"
          using readyState_after_close [OF True len] Some
          by (auto simp: socket_close_def set_readyState_def
                split: option.splits ready_state.splits)
      qed
      then show ?thesis
        using False Some True by (simp add: handshakeTimeout_def Let_def a1_def [symmetric])
    next
      case c: False
      have "current_attempt_ok (settle s p a1)" for p
        using ok1 c Some len by (intro ok_settle) (auto simp: readyState_of_def)
      then show ?thesis
        using False Some c by (simp add: handshakeTimeout_def Let_def a1_def [symmetric])
    qed
  qed
qed

lemma ok_socket_onopen:
  assumes "current_attempt_ok a" and "readyState_of a s = Some CONNECTING"
  shows "current_attempt_ok (socket_onopen s e (set_readyState s OPEN a))"
proof -
  define a0 where "a0 = set_readyState s OPEN a"
  have len: "s < length (sockets a)"
    using assms(2) by (simp add: readyState_of_def split: if_splits)
  have ok0: "current_attempt_ok a0"
    unfolding a0_def using assms(1) by (intro ok_set_readyState) simp_all
  have op: "readyState (sockets a0 ! s) = OPEN"
    using len by (simp add: a0_def set_readyState_def)
  define a5 where "a5 = sendStateToBackend (date_now e)
      ((agent_log ''Connected to Pope backend'' (clearTimer (timeout (sockets a0 ! s)) a0))
         \<lparr>state := (state (agent_log ''Connected to Pope backend''
                      (clearTimer (timeout (sockets a0 ! s)) a0)))
                    \<lparr>isBackendConnected := True\<rparr>,
          connectionAttempts := 0\<rparr>)"
  have f: "socket a5 = socket a0" "sockets a5 = sockets a0"
    by (simp_all add: a5_def keeps_channel)
  have ok5: "current_attempt_ok a5"
    using f ok0 by (rule ok_frame)
  have "current_attempt_ok (settle s Resolved a5)"
    using ok5 by (rule ok_settle) (simp add: f op)
  then show ?thesis
    by (simp add: socket_onopen_def Let_def a5_def a0_def)
qed

lemma ok_socket_onclose:
  "current_attempt_ok a \<Longrightarrow> current_attempt_ok (socket_onclose s e (set_readyState s CLOSED a))"
  by (rule ok_frame [of _ "set_readyState s CLOSED a"])
     (simp_all add: socket_onclose_def Let_def keeps_channel ok_set_readyState)

lemma ok_socket_onerror:
  "current_attempt_ok a \<Longrightarrow> current_attempt_ok (socket_onerror s (set_readyState s CLOSING a))"
  by (rule ok_frame [of _ "set_readyState s CLOSING a"])
     (simp_all add: socket_onerror_def Let_def keeps_channel ok_set_readyState)

lemma ok_fire: "current_attempt_ok a \<Longrightarrow> current_attempt_ok (fire h e a)"
proof -
  assume a: "current_attempt_ok a"
  define a1 where "a1 = (if repeating (timers a ! h) then a else clearTimer h a)"
  have ok1: "current_attempt_ok a1"
    using a by (rule ok_frame [rotated 2]) (simp_all add: a1_def keeps_channel)
  have "current_attempt_ok (run_callback f e a1)" for f
  proof (cases f)
    case Reconnect
    then show ?thesis using ok1 by (simp add: run_callback_def ok_reconnect)
  next
    case (HandshakeTimeout s)
    then show ?thesis using ok1 by (simp add: run_callback_def ok_handshakeTimeout)
  qed (rule ok_frame [OF _ _ ok1]; simp add: run_callback_def keeps_channel)+
  then show ?thesis
    by (simp add: fire_def Let_def a1_def)
qed

lemma ok_resume: "current_attempt_ok a \<Longrightarrow> current_attempt_ok (resume s a)"
proof -
  assume a: "current_attempt_ok a"
  define a1 where "a1 = set_awaiter s Nobody a"
  have ok1: "current_attempt_ok a1"
    unfolding a1_def using a by (rule ok_set_awaiter)
  have 1: "current_attempt_ok (start_resume a1)"
    by (rule ok_frame [OF _ _ ok1]) (simp_all add: keeps_channel)
  have 2: "current_attempt_ok (start_resume (console_error l a1))" for l
    by (rule ok_frame [OF _ _ ok1]) (simp_all add: keeps_channel)
  have 3: "current_attempt_ok (console_error l a1)" for l
    by (rule ok_frame [OF _ _ ok1]) (simp_all add: keeps_channel)
  show ?thesis
    using ok1 1 2 3
    by (simp add: resume_def Let_def a1_def [symmetric] split: awaiter.splits promise.splits)
qed

lemma ok_step: "step ev a = Some a' \<Longrightarrow> current_attempt_ok a \<Longrightarrow> current_attempt_ok a'"
proof (cases ev)
  case (Chat m e)
  assume "step ev a = Some a'" "current_attempt_ok a"
  then show ?thesis
    using Chat ok_frame [of "handleIncomingChat m (date_now e) a" a]
    by (auto simp: step_def keeps_channel split: if_splits)
next
  case (SocketMessage s d)
  assume "step ev a = Some a'" "current_attempt_ok a"
  then show ?thesis
    using SocketMessage ok_frame [of "handleBackendMessage d a" a]
      handleBackendMessage_channel [of d a]
    by (auto simp: step_def split: if_splits)
next
  case (PlayerNearby p e)
  assume "step ev a = Some a'" "current_attempt_ok a"
  then show ?thesis
    using PlayerNearby ok_frame [of "onPlayerNearby p e a" a]
    by (auto simp: step_def keeps_channel split: if_splits)
qed (auto simp: step_def ok_start ok_stop ok_socket_onopen ok_socket_onclose ok_socket_onerror
       ok_fire ok_resume split: if_splits)

lemma ok_new_agent: "current_attempt_ok (new_agent c w t)"
  by (simp add: current_attempt_ok_def new_agent_def agent_log_def)

lemma ok_run: "run evs a = Some a' \<Longrightarrow> current_attempt_ok a \<Longrightarrow> current_attempt_ok a'"
proof (induction evs arbitrary: a)
  case Nil
  then show ?case by simp
next
  case (Cons ev evs)
  from Cons.prems(1) obtain a1 where s: "step ev a = Some a1" and r: "run evs a1 = Some a'"
    by (auto split: option.splits)
  show ?case
    using Cons.IH [OF r] ok_step [OF s Cons.prems(2)] by simp
qed

lemma handshake_effect:
  assumes st: "step (SocketOpen s e) a = Some a'"
    and cur: "socket a = Some s"
    and pend: "promise (sockets a ! s) = Pending"
  shows "connectionAttempts a' = 0 \<and> isBackendConnected (state a')
       \<and> sent a' = sent a @ [(s, STATE_UPDATE (currentPosition (state a))
            (currentRotation (state a)) (currentAnimation (state a))
            (isInteracting (date_now e) a))]
       \<and> promise (sockets a' ! s) = Resolved
       \<and> readyState_of a' s = Some OPEN"
proof -
  from st have c: "readyState_of a s = Some CONNECTING"
    and a': "a' = socket_onopen s e (set_readyState s OPEN a)"
    by (auto simp: step_def split: if_splits)
  from c have len: "s < length (sockets a)"
    by (simp add: readyState_of_def split: if_splits)
  show ?thesis
    using len cur pend
    by (simp add: a' socket_onopen_def set_readyState_def clearTimer_def agent_log_def
          sendStateToBackend_def readyState_of_def socket_send_def settle_def
          isInteracting_def Let_def)
qed

text \<open>
  The \<^verbatim>\<open>open\<close> handler of any socket, whichever socket \<^verbatim>\<open>this.socket\<close> refers to: the
  counter is reset, the flag is set and the socket is open. The state goes out through
  \<^verbatim>\<open>this.socket\<close>; when that is another socket which is not open, or none, nothing is
  sent.
\<close>

lemma sendStateToBackend_keeps:
  "connectionAttempts (sendStateToBackend t a) = connectionAttempts a"
  "state (sendStateToBackend t a) = state a"
  "sockets (sendStateToBackend t a) = sockets a"
  by (simp_all add: sendStateToBackend_def socket_send_def split: option.splits)

lemma settle_keeps:
  "connectionAttempts (settle s r a) = connectionAttempts a"
  "state (settle s r a) = state a"
  "sent (settle s r a) = sent a"
  "map readyState (sockets (settle s r a)) = map readyState (sockets a)"
  by (simp_all add: settle_def list_eq_iff_nth_eq nth_list_update)

lemma sendStateToBackend_not_open:
  "socket a = Some c \<Longrightarrow> readyState_of a c \<noteq> Some OPEN \<Longrightarrow> sendStateToBackend t a = a"
  "socket a = None \<Longrightarrow> sendStateToBackend t a = a"
  by (simp_all add: sendStateToBackend_def)

lemma socket_onopen_flags:
  "connectionAttempts (socket_onopen s e a) = 0"
  "isBackendConnected (state (socket_onopen s e a))"
  by (simp_all add: socket_onopen_def Let_def settle_keeps sendStateToBackend_keeps)

lemma socket_onopen_superseded:
  assumes "socket a = Some c" and "readyState_of a c \<noteq> Some OPEN"
  shows "sent (socket_onopen s e a) = sent a"
proof -
  define a4 where "a4 = (agent_log ''Connected to Pope backend''
       (clearTimer (timeout (sockets a ! s)) a))
         \<lparr>state := (state (agent_log ''Connected to Pope backend''
             (clearTimer (timeout (sockets a ! s)) a)))\<lparr>isBackendConnected := True\<rparr>,
          connectionAttempts := 0\<rparr>"
  have "socket a4 = Some c" "readyState_of a4 c \<noteq> Some OPEN" "sent a4 = sent a"
    using assms
    by (simp_all add: a4_def agent_log_def clearTimer_def readyState_of_def split: if_splits)
  then have "sendStateToBackend (date_now e) a4 = a4" "sent a4 = sent a"
    by (simp_all add: sendStateToBackend_not_open)
  then show ?thesis
    by (simp add: socket_onopen_def Let_def settle_keeps a4_def)
qed

lemma handshake_flags:
  assumes "step (SocketOpen s e) a = Some a'"
  shows "connectionAttempts a' = 0 \<and> isBackendConnected (state a')
       \<and> readyState_of a' s = Some OPEN"
proof -
  from assms have c: "readyState_of a s = Some CONNECTING"
    and a': "a' = socket_onopen s e (set_readyState s OPEN a)"
    by (auto simp: step_def split: if_splits)
  from c have len: "s < length (sockets a)"
    by (simp add: readyState_of_def split: if_splits)
  have "map readyState (sockets a') = map readyState (sockets (set_readyState s OPEN a))"
    by (simp add: a' socket_onopen_def Let_def settle_keeps sendStateToBackend_keeps
          agent_log_def clearTimer_def)
  then have "map readyState (sockets a') ! s = OPEN" "length (sockets a') = length (sockets a)"
    using len by (simp_all add: set_readyState_def map_update) (metis length_map length_list_update)
  then have "readyState_of a' s = Some OPEN"
    using len by (simp add: readyState_of_def)
  then show ?thesis
    by (simp add: a' socket_onopen_flags)
qed

lemma handshake_of_other_socket:
  assumes "step (SocketOpen s e) a = Some a'"
    and "socket a = Some c" and "c \<noteq> s"
    and "readyState_of a c \<noteq> Some OPEN"
  shows "sent a' = sent a"
proof -
  from assms(1) have a': "a' = socket_onopen s e (set_readyState s OPEN a)"
    by (auto simp: step_def split: if_splits)
  have "socket (set_readyState s OPEN a) = Some c"
    "readyState_of (set_readyState s OPEN a) c \<noteq> Some OPEN"
    "sent (set_readyState s OPEN a) = sent a"
    using assms(2,3,4)
    by (simp_all add: set_readyState_def readyState_of_def split: if_splits)
  then show ?thesis
    by (simp add: a' socket_onopen_superseded)
qed

text \<open>
  The handshake of the socket that \<^verbatim>\<open>this.socket\<close> refers to, in every state the agent
  can reach from its construction: one \<open>STATE_UPDATE\<close> with the current position,
  rotation, animation and interacting flag goes out on that socket, and the promise of
  the call is resolved.
\<close>

lemma handshake_of_current_socket:
  assumes "run evs (new_agent c w t) = Some a"
    and "socket a = Some s"
    and "step (SocketOpen s e) a = Some a'"
  shows "connectionAttempts a' = 0 \<and> isBackendConnected (state a')
       \<and> sent a' = sent a @ [(s, STATE_UPDATE (currentPosition (state a))
            (currentRotation (state a)) (currentAnimation (state a))
            (isInteracting (date_now e) a))]
       \<and> promise (sockets a' ! s) = Resolved
       \<and> readyState_of a' s = Some OPEN"
proof -
  have ok: "current_attempt_ok a"
    using assms(1) ok_new_agent by (rule ok_run)
  from assms(3) have "readyState_of a s = Some CONNECTING"
    by (auto simp: step_def split: if_splits)
  then have "readyState (sockets a ! s) = CONNECTING"
    by (simp add: readyState_of_def split: if_splits)
  with ok assms(2) have "promise (sockets a ! s) = Pending"
    by (simp add: current_attempt_ok_def)
  with assms(3,2) show ?thesis by (rule handshake_effect)
qed

lemma handshake_of_first_socket:
  "run [Start (at_time 0)] (new_agent example_config example_world 0)
     = Some (start (at_time 0) example_agent)
   \<and> socket (start (at_time 0) example_agent) = Some 0
   \<and> connectionAttempts (start (at_time 0) example_agent) = 1
   \<and> connectionAttempts (socket_onopen 0 (at_time 100)
        (set_readyState 0 OPEN (start (at_time 0) example_agent))) = 0
   \<and> sent (socket_onopen 0 (at_time 100)
        (set_readyState 0 OPEN (start (at_time 0) example_agent)))
       = [(0, STATE_UPDATE [0, 0, 0] [0, 0, 0, 1] ''idle'' True)]
   \<and> promise (sockets (socket_onopen 0 (at_time 100)
        (set_readyState 0 OPEN (start (at_time 0) example_agent))) ! 0) = Resolved"
proof -
  have r: "run [Start (at_time 0)] (new_agent example_config example_world 0)
             = Some (start (at_time 0) example_agent)"
    by (simp add: step_def example_agent_def new_agent_def agent_log_def)
  have c: "socket (start (at_time 0) example_agent) = Some 0"
    "connectionAttempts (start (at_time 0) example_agent) = 1"
    "sent (start (at_time 0) example_agent) = []"
    "state (start (at_time 0) example_agent) = new_state 0"
    by (simp_all add: model_defs)
  have o: "step (SocketOpen 0 (at_time 100)) (start (at_time 0) example_agent)
             = Some (socket_onopen 0 (at_time 100)
                 (set_readyState 0 OPEN (start (at_time 0) example_agent)))"
    by (simp add: step_def awaited_settled_def readyState_of_def start_def loadCharacter_def
          connectToBackend_def checkBackendStatus_def set_awaiter_def setTimeout_def
          agent_log_def example_agent_def example_config_def new_agent_def at_time_def
          Let_def)
  have d: "date_now (at_time 100) = 100"
    by (simp add: at_time_def)
  show ?thesis
    using handshake_of_current_socket [OF r c(1) o] r
    by (simp add: c d new_state_def isInteracting_def)
qed

text \<open>
  Claim C7: on every successful handshake the attempt counter is reset to zero,
  \<open>isBackendConnected\<close> is set, the current state is pushed outward at once as a
  \<open>STATE_UPDATE\<close> and the open operation resolves. The \<^verbatim>\<open>open\<close> handler of the source
  calls \<^verbatim>\<open>sendStateToBackend\<close>, which sends through \<^verbatim>\<open>this.socket\<close> and not through the
  socket that opened. In the run below the agent is started and connected on socket 0,
  and socket 0 closes. The close handler schedules a reconnect (timer 4), the connection
  monitor (timer 1) schedules a second one (timer 5), the first opens socket 1, and the
  second fires while socket 1 is still connecting and opens socket 2, which
  \<^verbatim>\<open>this.socket\<close> refers to afterwards. Socket 1 then completes its handshake: the
  counter is 0, \<open>isBackendConnected\<close> is set, the promise of the call is resolved, and no
  \<open>STATE_UPDATE\<close> is sent. The only frame that ever went out is the one of the first
  handshake, on socket 0, and the backend on socket 1 has no state of the agent.
\<close>

theorem handshake_of_superseded_socket_pushes_nothing:
  "map_option (\<lambda>a. (socket a, map readyState (sockets a), sent a))
     (run (connect_and_start @
        [SocketClose 0 (at_time 59000), Fire 1 (at_time 60100), Fire 4 (at_time 61500),
         Fire 5 (at_time 62600)]) example_agent)
     = Some (Some 2, [CLOSED, CONNECTING, CONNECTING],
             [(0, STATE_UPDATE [0, 0, 0] [0, 0, 0, 1] ''idle'' True)])
   \<and> map_option (\<lambda>a. (connectionAttempts a, isBackendConnected (state a),
                       map readyState (sockets a), map promise (sockets a), sent a))
     (run (connect_and_start @
        [SocketClose 0 (at_time 59000), Fire 1 (at_time 60100), Fire 4 (at_time 61500),
         Fire 5 (at_time 62600), SocketOpen 1 (at_time 63000)]) example_agent)
     = Some (0, True, [CLOSED, OPEN, CONNECTING], [Resolved, Resolved, Pending],
             [(0, STATE_UPDATE [0, 0, 0] [0, 0, 0, 1] ''idle'' True)])"
  by (simp add: model_defs)

section \<open>Stopping the agent\<close>

text \<open>
  Claim C1. After \<^verbatim>\<open>stop()\<close> no reconnection may be scheduled or run and no animation
  may change. \<^verbatim>\<open>stop\<close> clears the two idle intervals and the connection monitor, but
  it closes the socket with its \<^verbatim>\<open>onclose\<close> handler still in place, and it keeps no
  handle of the one-shot timers. Below, on an agent started and then stopped: the
  \<^verbatim>\<open>close\<close> event of the socket that \<^verbatim>\<open>stop\<close> closed registers a reconnect timer;
  that timer opens a new socket; after its handshake \<open>isBackendConnected\<close> is true with
  \<open>isConnected\<close> false, and a backend message changes the animation. And an idle
  animation chosen before \<^verbatim>\<open>stop\<close> is reverted by its 5 s timer after \<^verbatim>\<open>stop\<close>.
\<close>

theorem stopped_agent_reconnects_and_animates:
  "map_option (\<lambda>a. (isConnected (state a), timers a ! 4))
     (run (connect_and_start @ [Stop, SocketClose 0 (at_time 10050)]) example_agent)
     = Some (False, \<lparr>cb = Reconnect, delay = 2500, repeating = False, active = True\<rparr>)
   \<and> map_option (\<lambda>a. (socket a, map readyState (sockets a)))
     (run (connect_and_start @ [Stop, SocketClose 0 (at_time 10050), Fire 4 (at_time 12550)])
        example_agent)
     = Some (Some 1, [CLOSED, CONNECTING])
   \<and> map_option (\<lambda>a. (isConnected (state a), isBackendConnected (state a),
                        currentAnimation (state a)))
     (run (connect_and_start @ [Stop, SocketClose 0 (at_time 10050), Fire 4 (at_time 12550),
         SocketOpen 1 (at_time 12600), Resume 1,
         SocketMessage 1 (update_message (no_update\<lparr>speaking := Some True\<rparr>))])
        example_agent)
     = Some (False, True, ''talking'')
   \<and> map_option (\<lambda>a. (isConnected (state a), currentAnimation (state a)))
     (run (connect_and_start @ [Fire 2 (at_time 90100), Stop]) example_agent)
     = Some (False, ''reflection'')
   \<and> map_option (\<lambda>a. (isConnected (state a), currentAnimation (state a)))
     (run (connect_and_start @ [Fire 2 (at_time 90100), Stop, Fire 4 (at_time 95100)])
        example_agent)
     = Some (False, ''idle'')"
  by (simp add: model_defs)

end
